theory Spec2Isabelle
  imports Main
begin

section \<open>Values of the API client library\<close>

text \<open>
  The provider talks to the cloud API through the egoscale client library. The library's
  values are kept abstract: a UUID and an IP address are opaque values, and the library
  functions that parse and print them (\<open>egoscale.ParseUUID\<close>, \<open>UUID.String\<close>,
  \<open>net.ParseIP\<close>, \<open>IP.String\<close>) are fields of the environment below.
\<close>

datatype UUID = UUID nat

datatype IP = IP "nat list"

text \<open>
  \<open>egoscale.ErrorCode\<close>: the code of a typed API error. The code only reads the two
  constants \<open>egoscale.ParamError\<close> and \<open>egoscale.NotFound\<close>.
\<close>

datatype ErrorCode = NotFound | ParamError | OtherCode nat

text \<open>
  Go \<open>error\<close> values: the sentinel \<open>egoscale.ErrNotFound\<close>, a typed
  \<open>*egoscale.ErrorResponse\<close> with its code, any other error of the client (a timeout, a
  transport failure), and the errors the provider builds itself with \<open>errors.New\<close> and
  \<open>fmt.Errorf\<close> (the format string and its arguments, unformatted).
\<close>

datatype error =
    ErrNotFound
  | ErrorResponse ErrorCode string
  | OtherError string
  | ErrorsNew string
  | Errorf string "fmtarg list"
and fmtarg = ArgString string | ArgError error

text \<open>
  A Go call either panics (a failed type assertion, a nil dereference, an index out of
  range, \<open>MustParseUUID\<close>) or returns its values.
\<close>

datatype 'a outcome = Panic | Return 'a

record ResourceTag =
  Tag_Key :: string
  Tag_Value :: string

record Network =
  Network_ID :: UUID
  Network_Name :: string
  Network_DisplayText :: string
  Network_ZoneName :: string
  Network_StartIP :: "IP option"
  Network_EndIP :: "IP option"
  Network_Netmask :: "IP option"
  Network_Tags :: "ResourceTag list"

record Zone =
  Zone_ID :: UUID
  Zone_Name :: string

record ListNetworksResponse =
  Count :: int
  Networks :: "Network list"

record AffinityGroup =
  AffinityGroup_ID :: UUID
  AffinityGroup_Name :: string
  AffinityGroup_Description :: string
  AffinityGroup_Type :: string
  AffinityGroup_VirtualMachineIDs :: "UUID list"

record DNSDomain =
  DNSDomain_ID :: "string option"
  DNSDomain_UnicodeName :: "string option"

datatype request =
    ListZones
  | ListNetworks "UUID option" "UUID option"
  | CreateNetwork string string UUID "IP option" "IP option" "IP option"
  | UpdateNetwork UUID string string "IP option" "IP option" "IP option"
  | DeleteNetwork UUID
  | CreateTags UUID string "(string \<times> string) list"
  | DeleteTags UUID string "(string \<times> string) list"
  | CreateAffinityGroup string string string
  | GetAffinityGroup UUID
  | DeleteAffinityGroup UUID
  | ListDNSDomains string

datatype response =
    ListZonesResponse "Zone list"
  | ListNetworksResp ListNetworksResponse
  | NetworkResp Network
  | AffinityGroupResp AffinityGroup
  | BooleanResponse
  | DNSDomainsResp "DNSDomain list"

text \<open>
  What a callback does besides returning: the requests it sends, in order, and the one
  warning the provider logs (\<open>tflog.Warn\<close>). Debug logging has no effect and is left out.
\<close>

datatype event = Rpc request | Warn string error

section \<open>The state record accessor\<close>

text \<open>
  \<open>schema.ResourceData\<close>: the identifier, the attributes of the prior state (what
  \<open>GetChange\<close> reports as old) and the current attributes by type: strings
  (\<open>TypeString\<close>), string maps (\<open>TypeMap\<close>) and string sets (\<open>TypeSet\<close>).
\<close>

record ResourceData =
  Id :: string
  state :: "string \<rightharpoonup> string"
  strs :: "string \<rightharpoonup> string"
  maps :: "string \<rightharpoonup> (string \<rightharpoonup> string)"
  sets :: "string \<rightharpoonup> string set"

datatype ValueType = TypeString | TypeMap | TypeSet

text \<open>\<open>d.Get(key).(string)\<close>: the zero value \<open>""\<close> when the attribute is not set.\<close>

definition d_Get :: "ResourceData \<Rightarrow> string \<Rightarrow> string" where
  "d_Get d key = (case strs d key of None \<Rightarrow> [] | Some v \<Rightarrow> v)"

text \<open>\<open>_, ok := d.GetOk(key)\<close>: whether the attribute is set to a non-zero value.\<close>

definition d_GetOk :: "ResourceData \<Rightarrow> string \<Rightarrow> bool" where
  "d_GetOk d key = (d_Get d key \<noteq> [])"

text \<open>\<open>d.GetChange(key)\<close> and \<open>d.HasChange(key)\<close> of a string attribute.\<close>

definition d_GetChange :: "ResourceData \<Rightarrow> string \<Rightarrow> string \<times> string" where
  "d_GetChange d key = ((case state d key of None \<Rightarrow> [] | Some v \<Rightarrow> v), d_Get d key)"

definition d_HasChange :: "ResourceData \<Rightarrow> string \<Rightarrow> bool" where
  "d_HasChange d key = (fst (d_GetChange d key) \<noteq> snd (d_GetChange d key))"

definition d_SetId :: "ResourceData \<Rightarrow> string \<Rightarrow> ResourceData" where
  "d_SetId d v = d\<lparr>Id := v\<rparr>"

text \<open>
  \<open>d.Set(key, value)\<close> returns an error when the resource's schema does not declare the
  key with the value's type, and stores the value otherwise.
\<close>

definition d_Set ::
  "(string \<times> ValueType) list \<Rightarrow> ResourceData \<Rightarrow> string \<Rightarrow> string \<Rightarrow> error option \<times> ResourceData" where
  "d_Set sch d key v =
     (if map_of sch key = Some TypeString then (None, d\<lparr>strs := (strs d)(key \<mapsto> v)\<rparr>)
      else (Some (Errorf ''Invalid address to set: %#v'' [ArgString key]), d))"

definition d_SetMap ::
  "(string \<times> ValueType) list \<Rightarrow> ResourceData \<Rightarrow> string \<Rightarrow> (string \<rightharpoonup> string) \<Rightarrow> error option \<times> ResourceData" where
  "d_SetMap sch d key v =
     (if map_of sch key = Some TypeMap then (None, d\<lparr>maps := (maps d)(key \<mapsto> v)\<rparr>)
      else (Some (Errorf ''Invalid address to set: %#v'' [ArgString key]), d))"


section \<open>The environment of a callback\<close>

text \<open>
  The remote API (one answer per request; \<open>client_ListDNSDomains\<close> is the typed
  listing of the second API version), the library functions on UUIDs and IP
  addresses, the provider's default zone, and the provider's tag helpers
  \<open>createTags\<close> and \<open>updateTags\<close>, which are defined elsewhere in the provider: they
  compute the tag requests from the state record and are taken as they are.
\<close>

record env =
  client :: "request \<Rightarrow> error + response"
  ParseUUID :: "string \<Rightarrow> error + UUID"
  UUID_String :: "UUID \<Rightarrow> string"
  ParseIP :: "string \<Rightarrow> IP option"
  IP_String :: "IP \<Rightarrow> string"
  client_ListDNSDomains :: "string \<Rightarrow> error + DNSDomain list"
  defaultZone :: string
  createTags :: "ResourceData \<Rightarrow> string \<Rightarrow> string \<Rightarrow> error + request option"
  updateTags :: "ResourceData \<Rightarrow> string \<Rightarrow> string \<Rightarrow> error + request list"

text \<open>\<open>client.BooleanRequestWithContext\<close>: only the error of the request.\<close>

definition BooleanRequestWithContext :: "env \<Rightarrow> request \<Rightarrow> error option" where
  "BooleanRequestWithContext env req = (case client env req of Inl e \<Rightarrow> Some e | Inr _ \<Rightarrow> None)"

section \<open>The zone resolver\<close>

text \<open>
  Modelled from the spec: \<open>getZoneByName\<close>, called by the network callbacks and defined
  elsewhere in the provider. The spec (4.2): the input is a zone name, the output the zone,
  or a NotFound failure if no zone matches; it is a linear scan over the full zone listing.
\<close>

definition getZoneByName :: "env \<Rightarrow> string \<Rightarrow> (error + Zone) \<times> event list" where
  "getZoneByName env zoneName =
     (case client env ListZones of
        Inl err \<Rightarrow> (Inl err, [Rpc ListZones])
      | Inr (ListZonesResponse zones) \<Rightarrow>
          (case find (\<lambda>z. Zone_Name z = zoneName) zones of
             None \<Rightarrow> (Inl ErrNotFound, [Rpc ListZones])
           | Some zone \<Rightarrow> (Inr zone, [Rpc ListZones]))
      | Inr _ \<Rightarrow> (Inl ErrNotFound, [Rpc ListZones]))"

section \<open>The network resource\<close>

text \<open>The schema of \<open>resourceNetwork\<close>; \<open>addTags\<close> declares the map \<open>tags\<close>.\<close>

definition resourceNetwork :: "(string \<times> ValueType) list" where
  "resourceNetwork =
     [(''zone'', TypeString), (''network_offering'', TypeString), (''name'', TypeString),
      (''display_text'', TypeString), (''start_ip'', TypeString), (''end_ip'', TypeString),
      (''netmask'', TypeString), (''tags'', TypeMap)]"

text \<open>
  The address block of \<open>resourceNetworkApply\<close> (lines 341 to 355): the three addresses
  are set together when the network has all three, and emptied together otherwise; the
  errors of the three emptying calls are ignored, as in the source.
\<close>

definition resourceNetworkApply_addresses ::
  "env \<Rightarrow> ResourceData \<Rightarrow> Network \<Rightarrow> error option \<times> ResourceData" where
  "resourceNetworkApply_addresses env d network =
     (if Network_StartIP network \<noteq> None \<and> Network_EndIP network \<noteq> None
         \<and> Network_Netmask network \<noteq> None
      then
        (case d_Set resourceNetwork d ''start_ip'' (IP_String env (the (Network_StartIP network))) of
           (Some err, d) \<Rightarrow> (Some err, d)
         | (None, d) \<Rightarrow>
        (case d_Set resourceNetwork d ''end_ip'' (IP_String env (the (Network_EndIP network))) of
           (Some err, d) \<Rightarrow> (Some err, d)
         | (None, d) \<Rightarrow>
             d_Set resourceNetwork d ''netmask'' (IP_String env (the (Network_Netmask network)))))
      else
        (let d = snd (d_Set resourceNetwork d ''start_ip'' []);
             d = snd (d_Set resourceNetwork d ''end_ip'' []);
             d = snd (d_Set resourceNetwork d ''netmask'' [])
         in (None, d)))"

text \<open>
  \<open>resourceNetworkApply\<close>: the identifier and every attribute are set from the network.
\<close>

definition resourceNetworkApply ::
  "env \<Rightarrow> ResourceData \<Rightarrow> Network \<Rightarrow> error option \<times> ResourceData" where
  "resourceNetworkApply env d network =
     (let d = d_SetId d (UUID_String env (Network_ID network)) in
      (case d_Set resourceNetwork d ''name'' (Network_Name network) of
        (Some err, d) \<Rightarrow> (Some err, d)
      | (None, d) \<Rightarrow>
      (case d_Set resourceNetwork d ''display_text'' (Network_DisplayText network) of
        (Some err, d) \<Rightarrow> (Some err, d)
      | (None, d) \<Rightarrow>
      (case d_Set resourceNetwork d ''zone'' (Network_ZoneName network) of
        (Some err, d) \<Rightarrow> (Some err, d)
      | (None, d) \<Rightarrow>
      (case resourceNetworkApply_addresses env d network of
        (Some err, d) \<Rightarrow> (Some err, d)
      | (None, d) \<Rightarrow>
          (let tags = foldl (\<lambda>m tag. m(Tag_Key tag \<mapsto> Tag_Value tag)) Map.empty
                        (Network_Tags network)
           in d_SetMap resourceNetwork d ''tags'' tags))))))"

text \<open>
  The loop of \<open>resourceNetworkFind\<close> over the zones. After the request, the source tests
  the error only for a typed API error: a parameter error skips the zone, another code
  but not-found returns the error. In every other case it reads the response: when the
  request failed the response is nil and the type assertion on it panics.
\<close>

fun resourceNetworkFind_zones ::
  "env \<Rightarrow> UUID \<Rightarrow> Zone list \<Rightarrow> (error + ListNetworksResponse) outcome \<times> event list" where
  "resourceNetworkFind_zones env nid [] = (Return (Inl ErrNotFound), [])"
| "resourceNetworkFind_zones env nid (zone # zones) =
     (let req = ListNetworks (Some nid) (Some (Zone_ID zone)) in
      case client env req of
        Inl (ErrorResponse code txt) \<Rightarrow>
          if code = ParamError then
            (case resourceNetworkFind_zones env nid zones of (r, evs) \<Rightarrow> (r, Rpc req # evs))
          else if code \<noteq> NotFound then (Return (Inl (ErrorResponse code txt)), [Rpc req])
          else (Panic, [Rpc req])
      | Inl _ \<Rightarrow> (Panic, [Rpc req])
      | Inr (ListNetworksResp resp) \<Rightarrow>
          if Count resp > 0 then (Return (Inr resp), [Rpc req])
          else (case resourceNetworkFind_zones env nid zones of (r, evs) \<Rightarrow> (r, Rpc req # evs))
      | Inr _ \<Rightarrow> (Panic, [Rpc req]))"

definition resourceNetworkFind ::
  "env \<Rightarrow> ResourceData \<Rightarrow> (error + ListNetworksResponse) outcome \<times> event list" where
  "resourceNetworkFind env d =
     (case ParseUUID env (Id d) of
        Inl _ \<Rightarrow> (Panic, [])
      | Inr nid \<Rightarrow>
          (case client env ListZones of
             Inl err \<Rightarrow> (Return (Inl err), [Rpc ListZones])
           | Inr (ListZonesResponse zones) \<Rightarrow>
               (case resourceNetworkFind_zones env nid zones of
                  (r, evs) \<Rightarrow> (r, Rpc ListZones # evs))
           | Inr _ \<Rightarrow> (Panic, [Rpc ListZones])))"

definition resourceNetworkRead ::
  "env \<Rightarrow> ResourceData \<Rightarrow> error option outcome \<times> ResourceData \<times> event list" where
  "resourceNetworkRead env d =
     (case resourceNetworkFind env d of
        (Panic, evs) \<Rightarrow> (Panic, d, evs)
      | (Return (Inl err), evs) \<Rightarrow> (Return (Some err), d, evs)
      | (Return (Inr networks), evs) \<Rightarrow>
          if Count networks = 0 then
            (Return (Some (Errorf ''no network found for ID %s'' [ArgString (Id d)])), d, evs)
          else
            (case Networks networks of
               [] \<Rightarrow> (Panic, d, evs)
             | network # _ \<Rightarrow>
                 (case resourceNetworkApply env d network of (e, d') \<Rightarrow> (Return e, d', evs))))"

text \<open>\<open>resourceNetworkExists\<close> returns a boolean and an error.\<close>

definition resourceNetworkExists ::
  "env \<Rightarrow> ResourceData \<Rightarrow> (bool \<times> error option) outcome \<times> ResourceData \<times> event list" where
  "resourceNetworkExists env d =
     (case resourceNetworkFind env d of
        (Panic, evs) \<Rightarrow> (Panic, d, evs)
      | (Return (Inl err), evs) \<Rightarrow>
          if err = ErrNotFound then (Return (False, None), d, evs)
          else (Return (False, Some err), d, evs)
      | (Return (Inr networks), evs) \<Rightarrow>
          if Count networks = 0 then (Return (False, None), d_SetId d [], evs)
          else (Return (True, None), d, evs))"

text \<open>\<open>Network.ResourceType()\<close> of the client library.\<close>

definition Network_ResourceType :: string where
  "Network_ResourceType = ''Network''"

text \<open>
  The end of \<open>resourceNetworkCreate\<close> (lines 140 to 165), once the network is created
  and its identifier stored: the tag request, the cleanup when it fails, and the read.
\<close>

definition resourceNetworkCreate_tags ::
  "env \<Rightarrow> ResourceData \<Rightarrow> Network \<Rightarrow> error option outcome \<times> ResourceData \<times> event list" where
  "resourceNetworkCreate_tags env d network =
     (case createTags env d ''tags'' Network_ResourceType of
        Inl err \<Rightarrow> (Return (Some err), d, [])
      | Inr None \<Rightarrow> resourceNetworkRead env d
      | Inr (Some cmd) \<Rightarrow>
          (case BooleanRequestWithContext env cmd of
             Some err \<Rightarrow>
               (let del = DeleteNetwork (Network_ID network) in
                case BooleanRequestWithContext env del of
                  Some e \<Rightarrow>
                    (Return (Some err), d,
                     [Rpc cmd, Rpc del,
                      Warn ''failure to create the tags, but the network was created'' e])
                | None \<Rightarrow> (Return (Some err), d, [Rpc cmd, Rpc del]))
           | None \<Rightarrow>
               (case resourceNetworkRead env d of (r, d', evs) \<Rightarrow> (r, d', Rpc cmd # evs))))"

text \<open>
  The cross-field validation of \<open>resourceNetworkCreate\<close> (lines 114 to 121): the error
  it returns, if any.
\<close>

definition resourceNetworkCreate_validate :: "env \<Rightarrow> ResourceData \<Rightarrow> error option" where
  "resourceNetworkCreate_validate env d =
     (let startIP = ParseIP env (d_Get d ''start_ip'');
          endIP = ParseIP env (d_Get d ''end_ip'');
          netmask = ParseIP env (d_Get d ''netmask'')
      in
      if (startIP = None \<and> endIP \<noteq> None) \<or> (startIP \<noteq> None \<and> endIP = None) then
        Some (ErrorsNew ''start_ip and end_ip must be both specified'')
      else if (startIP \<noteq> None \<and> endIP \<noteq> None) \<and> netmask = None then
        Some (ErrorsNew ''netmask must be specified with start_ip and end_ip'')
      else None)"

text \<open>The create request of \<open>resourceNetworkCreate\<close> (lines 102 to 106 and 123 to 130).\<close>

definition resourceNetworkCreate_req :: "env \<Rightarrow> ResourceData \<Rightarrow> Zone \<Rightarrow> request" where
  "resourceNetworkCreate_req env d zone =
     (let name = d_Get d ''name'';
          displayText = (if d_Get d ''display_text'' = [] then name else d_Get d ''display_text'')
      in CreateNetwork name displayText (Zone_ID zone)
           (ParseIP env (d_Get d ''start_ip'')) (ParseIP env (d_Get d ''end_ip''))
           (ParseIP env (d_Get d ''netmask'')))"

definition resourceNetworkCreate ::
  "env \<Rightarrow> ResourceData \<Rightarrow> error option outcome \<times> ResourceData \<times> event list" where
  "resourceNetworkCreate env d =
     (let zoneName = d_Get d ''zone'' in
      case getZoneByName env zoneName of
        (Inl err, evs) \<Rightarrow> (Return (Some err), d, evs)
      | (Inr zone, evs) \<Rightarrow>
          (case resourceNetworkCreate_validate env d of
             Some err \<Rightarrow> (Return (Some err), d, evs)
           | None \<Rightarrow>
               (let req = resourceNetworkCreate_req env d zone in
                case client env req of
                  Inl err \<Rightarrow> (Return (Some err), d, evs @ [Rpc req])
                | Inr (NetworkResp network) \<Rightarrow>
                    (case resourceNetworkCreate_tags env
                            (d_SetId d (UUID_String env (Network_ID network))) network of
                       (r, d', evs') \<Rightarrow> (r, d', evs @ Rpc req # evs'))
                | Inr _ \<Rightarrow> (Panic, d, evs @ [Rpc req]))))"

text \<open>The loop of \<open>resourceNetworkUpdate\<close> over the two keys that require replacement.\<close>

fun resourceNetworkUpdate_keys :: "ResourceData \<Rightarrow> string list \<Rightarrow> error option" where
  "resourceNetworkUpdate_keys d [] = None"
| "resourceNetworkUpdate_keys d (key # keys) =
     (case d_GetChange d key of
        (old, new) \<Rightarrow>
          if old \<noteq> [] \<and> new = [] then
            Some (Errorf
              ''[ERROR] new value of %q cannot be empty. old value was %s. The resource must be recreated instead''
              [ArgString key, ArgString old])
          else resourceNetworkUpdate_keys d keys)"

text \<open>The loop of \<open>resourceNetworkUpdate\<close> that sends the requests, up to the first error.\<close>

fun resourceNetworkUpdate_requests :: "env \<Rightarrow> request list \<Rightarrow> error option \<times> event list" where
  "resourceNetworkUpdate_requests env [] = (None, [])"
| "resourceNetworkUpdate_requests env (req # requests) =
     (case client env req of
        Inl err \<Rightarrow> (Some err, [Rpc req])
      | Inr _ \<Rightarrow>
          (case resourceNetworkUpdate_requests env requests of (r, evs) \<Rightarrow> (r, Rpc req # evs)))"

definition resourceNetworkUpdate ::
  "env \<Rightarrow> ResourceData \<Rightarrow> error option outcome \<times> ResourceData \<times> event list" where
  "resourceNetworkUpdate env d =
     (case ParseUUID env (Id d) of
        Inl err \<Rightarrow> (Return (Some err), d, [])
      | Inr nid \<Rightarrow>
          (case (if d_HasChange d ''start_ip'' \<or> d_HasChange d ''end_ip''
                 then resourceNetworkUpdate_keys d [''start_ip'', ''end_ip''] else None) of
             Some err \<Rightarrow> (Return (Some err), d, [])
           | None \<Rightarrow>
               (let updateNetwork =
                      UpdateNetwork nid (d_Get d ''name'') (d_Get d ''display_text'')
                        (ParseIP env (d_Get d ''start_ip'')) (ParseIP env (d_Get d ''end_ip''))
                        (ParseIP env (d_Get d ''netmask''))
                in
                case updateTags env d ''tags'' Network_ResourceType of
                  Inl err \<Rightarrow> (Return (Some err), d, [])
                | Inr requests \<Rightarrow>
                    (case resourceNetworkUpdate_requests env (requests @ [updateNetwork]) of
                       (Some err, evs) \<Rightarrow> (Return (Some err), d, evs)
                     | (None, evs) \<Rightarrow>
                         (case resourceNetworkRead env d of
                            (r, d', evs') \<Rightarrow> (r, d', evs @ evs'))))))"

section \<open>The network data source\<close>

definition dataSourceNetwork :: "(string \<times> ValueType) list" where
  "dataSourceNetwork =
     [(''zone'', TypeString), (''id'', TypeString), (''name'', TypeString),
      (''description'', TypeString), (''start_ip'', TypeString), (''end_ip'', TypeString),
      (''netmask'', TypeString)]"

text \<open>\<open>client.ListWithContext\<close> of a network listing: the networks of the answer.\<close>

definition ListWithContext :: "env \<Rightarrow> request \<Rightarrow> error + Network list" where
  "ListWithContext env req =
     (case client env req of
        Inl err \<Rightarrow> Inl err
      | Inr (ListNetworksResp resp) \<Rightarrow> Inr (Networks resp)
      | Inr _ \<Rightarrow> Inl (OtherError ''unexpected response''))"

text \<open>
  The search loop of \<open>dataSourceNetworkRead\<close> (lines 102 to 121); \<open>network\<close> is the match
  found so far. Dereferencing \<open>networkID\<close> panics when it is nil.
\<close>

fun dataSourceNetworkRead_loop ::
  "bool \<Rightarrow> UUID option \<Rightarrow> string \<Rightarrow> Network list \<Rightarrow> Network option
     \<Rightarrow> (error + Network option) outcome" where
  "dataSourceNetworkRead_loop byID networkID networkName [] network = Return (Inr network)"
| "dataSourceNetworkRead_loop byID networkID networkName (net # resp) network =
     (if byID \<and> networkID = None then Panic
      else if byID \<and> networkID = Some (Network_ID net) then Return (Inr (Some net))
      else if Network_Name net = networkName then
        (if network \<noteq> None then
           Return (Inl (Errorf
             ''found multiple networks named %q, please specify a unique ID instead''
             [ArgString (Network_Name net)]))
         else dataSourceNetworkRead_loop byID networkID networkName resp (Some net))
      else dataSourceNetworkRead_loop byID networkID networkName resp network)"

text \<open>The end of \<open>dataSourceNetworkRead\<close> (lines 126 to 154), once the network is found.\<close>

definition dataSourceNetworkRead_apply ::
  "env \<Rightarrow> ResourceData \<Rightarrow> Network \<Rightarrow> error option \<times> ResourceData" where
  "dataSourceNetworkRead_apply env d network =
     (let d = d_SetId d (UUID_String env (Network_ID network)) in
      (case d_Set dataSourceNetwork d ''id'' (Id d) of
        (Some err, d) \<Rightarrow> (Some err, d)
      | (None, d) \<Rightarrow>
      (case d_Set dataSourceNetwork d ''name'' (Network_Name network) of
        (Some err, d) \<Rightarrow> (Some err, d)
      | (None, d) \<Rightarrow>
      (case d_Set dataSourceNetwork d ''description'' (Network_DisplayText network) of
        (Some err, d) \<Rightarrow> (Some err, d)
      | (None, d) \<Rightarrow>
      (if Network_StartIP network \<noteq> None \<and> Network_EndIP network \<noteq> None
          \<and> Network_Netmask network \<noteq> None
       then
         (case d_Set dataSourceNetwork d ''start_ip''
                 (IP_String env (the (Network_StartIP network))) of
            (Some err, d) \<Rightarrow> (Some err, d)
          | (None, d) \<Rightarrow>
         (case d_Set dataSourceNetwork d ''end_ip''
                 (IP_String env (the (Network_EndIP network))) of
            (Some err, d) \<Rightarrow> (Some err, d)
          | (None, d) \<Rightarrow>
         (case d_Set dataSourceNetwork d ''netmask''
                 (IP_String env (the (Network_Netmask network))) of
            (Some err, d) \<Rightarrow> (Some err, d)
          | (None, d) \<Rightarrow> (None, d))))
       else
         (let d = snd (d_Set dataSourceNetwork d ''start_ip'' []);
              d = snd (d_Set dataSourceNetwork d ''end_ip'' []);
              d = snd (d_Set dataSourceNetwork d ''netmask'' [])
          in (None, d)))))))"

definition dataSourceNetworkRead ::
  "env \<Rightarrow> ResourceData \<Rightarrow> error option outcome \<times> ResourceData \<times> event list" where
  "dataSourceNetworkRead env d =
     (let zoneName = d_Get d ''zone'' in
      case getZoneByName env zoneName of
        (Inl err, evs) \<Rightarrow> (Return (Some err), d, evs)
      | (Inr zone, evs) \<Rightarrow>
          (let byName = d_GetOk d ''name'';
               byID = d_GetOk d ''id''
           in
           if \<not> byName \<and> \<not> byID then
             (Return (Some (ErrorsNew ''either name or id must be specified'')), d, evs)
           else
             (let networkName = (if byName then d_Get d ''name'' else []) in
              case (if byID then
                      (case ParseUUID env (d_Get d ''id'') of
                         Inl err \<Rightarrow> Inl (Errorf ''invalid value for id: %s'' [ArgError err])
                       | Inr u \<Rightarrow> Inr (Some u))
                    else Inr None) of
                Inl err \<Rightarrow> (Return (Some err), d, evs)
              | Inr networkID \<Rightarrow>
                  (let req = ListNetworks None (Some (Zone_ID zone)) in
                   case ListWithContext env req of
                     Inl err \<Rightarrow>
                       (Return (Some (Errorf ''networks listing failed: %s'' [ArgError err])),
                        d, evs @ [Rpc req])
                   | Inr resp \<Rightarrow>
                       (case dataSourceNetworkRead_loop byID networkID networkName resp None of
                          Panic \<Rightarrow> (Panic, d, evs @ [Rpc req])
                        | Return (Inl err) \<Rightarrow> (Return (Some err), d, evs @ [Rpc req])
                        | Return (Inr None) \<Rightarrow>
                            (Return (Some (ErrorsNew ''network not found'')), d, evs @ [Rpc req])
                        | Return (Inr (Some network)) \<Rightarrow>
                            (case dataSourceNetworkRead_apply env d network of
                               (e, d') \<Rightarrow> (Return e, d', evs @ [Rpc req])))))))"

section \<open>The domain data source\<close>

definition dataSourceDomain :: "(string \<times> ValueType) list" where
  "dataSourceDomain = [(''name'', TypeString)]"

text \<open>
  The search loop of \<open>dataSourceDomainRead\<close> (lines 46 to 52): the first domain of that
  name ends the loop. Dereferencing a nil \<open>UnicodeName\<close> panics.
\<close>

fun dataSourceDomainRead_loop :: "string \<Rightarrow> DNSDomain list \<Rightarrow> DNSDomain option outcome" where
  "dataSourceDomainRead_loop domainName [] = Return None"
| "dataSourceDomainRead_loop domainName (item # domains) =
     (case DNSDomain_UnicodeName item of
        None \<Rightarrow> Panic
      | Some n \<Rightarrow>
          if n = domainName then Return (Some item)
          else dataSourceDomainRead_loop domainName domains)"

definition dataSourceDomainRead ::
  "env \<Rightarrow> ResourceData \<Rightarrow> error option outcome \<times> ResourceData \<times> event list" where
  "dataSourceDomainRead env d =
     (let domainName = d_Get d ''name'';
          req = ListDNSDomains (defaultZone env)
      in
      case client_ListDNSDomains env (defaultZone env) of
        Inl err \<Rightarrow>
          (Return (Some (Errorf ''error retrieving domain list: %s'' [ArgError err])), d, [Rpc req])
      | Inr domains \<Rightarrow>
          (case dataSourceDomainRead_loop domainName domains of
             Panic \<Rightarrow> (Panic, d, [Rpc req])
           | Return None \<Rightarrow>
               (Return (Some (Errorf ''domain %q not found'' [ArgString domainName])), d, [Rpc req])
           | Return (Some domain) \<Rightarrow>
               (case DNSDomain_ID domain of
                  None \<Rightarrow> (Panic, d, [Rpc req])
                | Some i \<Rightarrow>
                    (case d_Set dataSourceDomain (d_SetId d i) ''name''
                            (the (DNSDomain_UnicodeName domain)) of
                       (e, d') \<Rightarrow> (Return e, d', [Rpc req])))))"

section \<open>The anti-affinity group resource\<close>


text \<open>
  Modelled from the spec: \<open>handleNotFound\<close>, called by the anti-affinity group callbacks
  and defined elsewhere in the provider. The spec (4.1, 7): a not-found outcome of the
  remote call is translated into clearing the local identifier and is no failure; any
  other error is propagated as it is.
\<close>

definition handleNotFound :: "ResourceData \<Rightarrow> error \<Rightarrow> error option \<times> ResourceData" where
  "handleNotFound d err =
     (case err of
        ErrNotFound \<Rightarrow> (None, d_SetId d [])
      | ErrorResponse code txt \<Rightarrow>
          if code = NotFound then (None, d_SetId d []) else (Some err, d)
      | _ \<Rightarrow> (Some err, d))"




definition resourceAffinityExists ::
  "env \<Rightarrow> ResourceData \<Rightarrow> (bool \<times> error option) outcome \<times> ResourceData \<times> event list" where
  "resourceAffinityExists env d =
     (case ParseUUID env (Id d) of
        Inl err \<Rightarrow> (Return (False, Some err), d, [])
      | Inr nid \<Rightarrow>
          (let req = GetAffinityGroup nid in
           case client env req of
             Inl err \<Rightarrow>
               (case handleNotFound d err of
                  (e, d') \<Rightarrow> (Return (Id d' \<noteq> [], e), d', [Rpc req]))
           | Inr _ \<Rightarrow> (Return (True, None), d, [Rpc req])))"

section \<open>Properties of lookups and of the mapped state\<close>

text \<open>
  The address attributes of a state record mirror a network all or nothing: the three
  are the network's three addresses, or the three are empty.
\<close>

definition addresses_all_or_none :: "env \<Rightarrow> Network \<Rightarrow> ResourceData \<Rightarrow> bool" where
  "addresses_all_or_none env network d =
     ((case (Network_StartIP network, Network_EndIP network, Network_Netmask network) of
         (Some startIP, Some endIP, Some netmask) \<Rightarrow>
           strs d ''start_ip'' = Some (IP_String env startIP)
           \<and> strs d ''end_ip'' = Some (IP_String env endIP)
           \<and> strs d ''netmask'' = Some (IP_String env netmask)
       | _ \<Rightarrow> False)
      \<or> (strs d ''start_ip'' = Some [] \<and> strs d ''end_ip'' = Some []
           \<and> strs d ''netmask'' = Some []))"

text \<open>
  A zone is passed over by the lookup of a network when its listing reports a parameter
  error or lists no network.
\<close>

definition zone_without_match :: "env \<Rightarrow> UUID \<Rightarrow> Zone \<Rightarrow> bool" where
  "zone_without_match env nid zone =
     (case client env (ListNetworks (Some nid) (Some (Zone_ID zone))) of
        Inl (ErrorResponse code txt) \<Rightarrow> code = ParamError
      | Inl _ \<Rightarrow> False
      | Inr (ListNetworksResp resp) \<Rightarrow> Count resp \<le> 0
      | Inr _ \<Rightarrow> False)"

text \<open>
  The answers of a zone that the lookup handles: a listing, or a typed API error with a
  code other than not-found.
\<close>

definition zone_answer_handled :: "env \<Rightarrow> UUID \<Rightarrow> Zone \<Rightarrow> bool" where
  "zone_answer_handled env nid zone =
     (case client env (ListNetworks (Some nid) (Some (Zone_ID zone))) of
        Inl (ErrorResponse code txt) \<Rightarrow> code \<noteq> NotFound
      | Inl _ \<Rightarrow> False
      | Inr (ListNetworksResp resp) \<Rightarrow> True
      | Inr _ \<Rightarrow> False)"

text \<open>
  The API's contract for a listing by identifier: it lists only networks that carry the
  identifier asked for.
\<close>

definition lists_queried_network :: "env \<Rightarrow> UUID \<Rightarrow> bool" where
  "lists_queried_network env nid =
     (\<forall>zid resp. client env (ListNetworks (Some nid) zid) = Inr (ListNetworksResp resp)
        \<longrightarrow> (\<forall>network \<in> set (Networks resp). Network_ID network = nid))"



section \<open>Example inputs\<close>

text \<open>
  A small remote: two zones, one private network in the first of them, one anti-affinity
  group and two domains. UUIDs are printed in unary, so that printing and parsing are
  inverse for every UUID.
\<close>

definition example_UUID_String :: "UUID \<Rightarrow> string" where
  "example_UUID_String u = (case u of UUID n \<Rightarrow> CHR ''u'' # replicate n (CHR ''1''))"

definition example_ParseUUID :: "string \<Rightarrow> error + UUID" where
  "example_ParseUUID s =
     (if s \<noteq> [] \<and> hd s = CHR ''u'' \<and> tl s = replicate (length (tl s)) (CHR ''1'')
      then Inr (UUID (length (tl s)))
      else Inl (OtherError ''invalid UUID''))"

definition example_ParseIP :: "string \<Rightarrow> IP option" where
  "example_ParseIP s =
     (if s = ''10.0.0.10'' then Some (IP [10, 0, 0, 10])
      else if s = ''10.0.0.50'' then Some (IP [10, 0, 0, 50])
      else if s = ''255.255.255.0'' then Some (IP [255, 255, 255, 0])
      else None)"

definition example_IP_String :: "IP \<Rightarrow> string" where
  "example_IP_String ip =
     (if ip = IP [10, 0, 0, 10] then ''10.0.0.10''
      else if ip = IP [10, 0, 0, 50] then ''10.0.0.50''
      else if ip = IP [255, 255, 255, 0] then ''255.255.255.0''
      else ''<nil>'')"

definition example_zone_gva :: Zone where
  "example_zone_gva = \<lparr>Zone_ID = UUID 3, Zone_Name = ''ch-gva-2''\<rparr>"

definition example_zone_fra :: Zone where
  "example_zone_fra = \<lparr>Zone_ID = UUID 4, Zone_Name = ''de-fra-1''\<rparr>"

definition example_network :: Network where
  "example_network =
     \<lparr>Network_ID = UUID 2, Network_Name = ''private'', Network_DisplayText = ''private'',
      Network_ZoneName = ''ch-gva-2'', Network_StartIP = Some (IP [10, 0, 0, 10]),
      Network_EndIP = Some (IP [10, 0, 0, 50]), Network_Netmask = Some (IP [255, 255, 255, 0]),
      Network_Tags = [\<lparr>Tag_Key = ''env'', Tag_Value = ''prod''\<rparr>]\<rparr>"

definition example_network_twin :: Network where
  "example_network_twin = example_network\<lparr>Network_ID := UUID 7\<rparr>"

definition example_group :: AffinityGroup where
  "example_group =
     \<lparr>AffinityGroup_ID = UUID 5, AffinityGroup_Name = ''group'',
      AffinityGroup_Description = ''spread'', AffinityGroup_Type = ''host anti-affinity'',
      AffinityGroup_VirtualMachineIDs = [UUID 6]\<rparr>"

definition example_domain :: DNSDomain where
  "example_domain = \<lparr>DNSDomain_ID = Some ''d1'', DNSDomain_UnicodeName = Some ''example.net''\<rparr>"

definition example_domain_twin :: DNSDomain where
  "example_domain_twin = \<lparr>DNSDomain_ID = Some ''d2'', DNSDomain_UnicodeName = Some ''example.net''\<rparr>"

fun example_client :: "request \<Rightarrow> error + response" where
  "example_client ListZones = Inr (ListZonesResponse [example_zone_fra, example_zone_gva])"
| "example_client (ListNetworks (Some nid) zid) =
     (if zid = Some (UUID 3) then
        Inr (ListNetworksResp
          (if nid = UUID 2 then \<lparr>Count = 1, Networks = [example_network]\<rparr>
           else \<lparr>Count = 0, Networks = []\<rparr>))
      else Inl (ErrorResponse ParamError ''no such network in this zone''))"
| "example_client (ListNetworks None zid) =
     Inr (ListNetworksResp
       (if zid = Some (UUID 3) then \<lparr>Count = 1, Networks = [example_network]\<rparr>
        else \<lparr>Count = 0, Networks = []\<rparr>))"
| "example_client (CreateNetwork name displayText zid startIP endIP netmask) =
     Inr (NetworkResp example_network)"
| "example_client (UpdateNetwork nid name displayText startIP endIP netmask) =
     Inr (NetworkResp example_network)"
| "example_client (CreateAffinityGroup name description type) =
     Inr (AffinityGroupResp example_group)"
| "example_client (GetAffinityGroup gid) =
     (if gid = UUID 5 then Inr (AffinityGroupResp example_group)
      else Inl (ErrorResponse NotFound ''no such group''))"
| "example_client _ = Inr BooleanResponse"

definition example_env :: env where
  "example_env =
     \<lparr>client = example_client, ParseUUID = example_ParseUUID,
      UUID_String = example_UUID_String, ParseIP = example_ParseIP,
      IP_String = example_IP_String,
      client_ListDNSDomains = (\<lambda>zone. Inr [example_domain]),
      defaultZone = ''ch-gva-2'',
      createTags = (\<lambda>d key resourceType. Inr None),
      updateTags = (\<lambda>d key resourceType. Inr [])\<rparr>"

text \<open>The configuration of a managed network, before it is created.\<close>

definition example_config :: ResourceData where
  "example_config =
     \<lparr>Id = [], state = Map.empty,
      strs = [''zone'' \<mapsto> ''ch-gva-2'', ''name'' \<mapsto> ''private'',
              ''start_ip'' \<mapsto> ''10.0.0.10'', ''end_ip'' \<mapsto> ''10.0.0.50'',
              ''netmask'' \<mapsto> ''255.255.255.0''],
      maps = Map.empty, sets = Map.empty\<rparr>"

text \<open>The same configuration without the end of the range.\<close>

definition example_half_range :: ResourceData where
  "example_half_range =
     \<lparr>Id = [], state = Map.empty,
      strs = [''zone'' \<mapsto> ''ch-gva-2'', ''name'' \<mapsto> ''private'',
              ''start_ip'' \<mapsto> ''10.0.0.10'', ''netmask'' \<mapsto> ''255.255.255.0''],
      maps = Map.empty, sets = Map.empty\<rparr>"

text \<open>The network once created, with a change of its description planned.\<close>

definition example_stored :: ResourceData where
  "example_stored =
     \<lparr>Id = ''u11'',
      state = [''zone'' \<mapsto> ''ch-gva-2'', ''name'' \<mapsto> ''private'',
               ''display_text'' \<mapsto> ''private'',
               ''start_ip'' \<mapsto> ''10.0.0.10'', ''end_ip'' \<mapsto> ''10.0.0.50'',
               ''netmask'' \<mapsto> ''255.255.255.0''],
      strs = [''zone'' \<mapsto> ''ch-gva-2'', ''name'' \<mapsto> ''private'',
              ''display_text'' \<mapsto> ''lab network'',
              ''start_ip'' \<mapsto> ''10.0.0.10'', ''end_ip'' \<mapsto> ''10.0.0.50'',
              ''netmask'' \<mapsto> ''255.255.255.0''],
      maps = Map.empty, sets = Map.empty\<rparr>"

text \<open>The network once created, with the end of its range removed from the configuration.\<close>

definition example_cleared :: ResourceData where
  "example_cleared = example_stored\<lparr>strs := (strs example_stored)(''end_ip'' := None)\<rparr>"

text \<open>A remote whose tag request and whose delete request both fail.\<close>

definition example_env_tags_fail :: env where
  "example_env_tags_fail =
     example_env
       \<lparr>client := example_client
          (CreateTags (UUID 2) ''Network'' [(''env'', ''prod'')] :=
             Inl (ErrorResponse (OtherCode 500) ''tags unavailable''),
           DeleteNetwork (UUID 2) := Inl (OtherError ''connection reset'')),
        createTags := (\<lambda>d key resourceType.
          Inr (Some (CreateTags (UUID 2) resourceType [(''env'', ''prod'')])))\<rparr>"

text \<open>A remote whose only zone answers the listing of networks with an authorisation error.\<close>

definition example_env_unauthorized :: env where
  "example_env_unauthorized =
     example_env
       \<lparr>client := example_client
          (ListZones := Inr (ListZonesResponse [example_zone_gva]),
           ListNetworks (Some (UUID 2)) (Some (UUID 3)) :=
             Inl (ErrorResponse (OtherCode 401) ''unauthorized''))\<rparr>"

text \<open>A remote whose only zone does not answer the listing of networks in time.\<close>

definition example_env_timeout :: env where
  "example_env_timeout =
     example_env
       \<lparr>client := example_client
          (ListZones := Inr (ListZonesResponse [example_zone_gva]),
           ListNetworks (Some (UUID 2)) (Some (UUID 3)) :=
             Inl (OtherError ''context deadline exceeded''))\<rparr>"

text \<open>A remote with two networks of one name, and one with two domains of one name.\<close>

definition example_env_two_networks :: env where
  "example_env_two_networks =
     example_env
       \<lparr>client := example_client
          (ListNetworks None (Some (UUID 3)) :=
             Inr (ListNetworksResp
               \<lparr>Count = 2, Networks = [example_network, example_network_twin]\<rparr>))\<rparr>"

definition example_env_two_domains :: env where
  "example_env_two_domains =
     example_env\<lparr>client_ListDNSDomains := (\<lambda>zone. Inr [example_domain, example_domain_twin])\<rparr>"

text \<open>Queries of the two data sources by name.\<close>

definition example_network_query :: ResourceData where
  "example_network_query =
     \<lparr>Id = [], state = Map.empty,
      strs = [''zone'' \<mapsto> ''ch-gva-2'', ''name'' \<mapsto> ''private''],
      maps = Map.empty, sets = Map.empty\<rparr>"

definition example_network_query_unknown :: ResourceData where
  "example_network_query_unknown =
     \<lparr>Id = [], state = Map.empty,
      strs = [''zone'' \<mapsto> ''ch-gva-2'', ''name'' \<mapsto> ''public''],
      maps = Map.empty, sets = Map.empty\<rparr>"

definition example_domain_query :: ResourceData where
  "example_domain_query =
     \<lparr>Id = [], state = Map.empty, strs = [''name'' \<mapsto> ''example.net''],
      maps = Map.empty, sets = Map.empty\<rparr>"


text \<open>
  A library whose parser also reads an identifier written with a capital first letter,
  and the stored network with its identifier written that way.
\<close>

definition example_ParseUUID_any_case :: "string \<Rightarrow> error + UUID" where
  "example_ParseUUID_any_case s =
     example_ParseUUID
       (case s of [] \<Rightarrow> [] | c # cs \<Rightarrow> (if c = CHR ''U'' then CHR ''u'' else c) # cs)"

definition example_env_any_case :: env where
  "example_env_any_case = example_env\<lparr>ParseUUID := example_ParseUUID_any_case\<rparr>"

definition example_stored_capital :: ResourceData where
  "example_stored_capital = example_stored\<lparr>Id := ''U11''\<rparr>"


section \<open>Lemmas on the state record accessor and the callbacks\<close>

lemma d_Set_resourceNetwork:
  "key \<in> {''name'', ''display_text'', ''zone'', ''start_ip'', ''end_ip'', ''netmask''} \<Longrightarrow>
   d_Set resourceNetwork d key v = (None, d\<lparr>strs := (strs d)(key \<mapsto> v)\<rparr>)"
  by (auto simp: d_Set_def resourceNetwork_def)

lemma d_SetMap_resourceNetwork:
  "d_SetMap resourceNetwork d ''tags'' v = (None, d\<lparr>maps := (maps d)(''tags'' \<mapsto> v)\<rparr>)"
  by (simp add: d_SetMap_def resourceNetwork_def)

lemma d_Set_dataSourceNetwork:
  "key \<in> {''id'', ''name'', ''description'', ''start_ip'', ''end_ip'', ''netmask''} \<Longrightarrow>
   d_Set dataSourceNetwork d key v = (None, d\<lparr>strs := (strs d)(key \<mapsto> v)\<rparr>)"
  by (auto simp: d_Set_def dataSourceNetwork_def)

lemma resourceNetworkApply_addresses_eq:
  "resourceNetworkApply_addresses env d network =
     (None, d\<lparr>strs :=
        (if Network_StartIP network \<noteq> None \<and> Network_EndIP network \<noteq> None
            \<and> Network_Netmask network \<noteq> None
         then (strs d)(''start_ip'' \<mapsto> IP_String env (the (Network_StartIP network)),
                       ''end_ip'' \<mapsto> IP_String env (the (Network_EndIP network)),
                       ''netmask'' \<mapsto> IP_String env (the (Network_Netmask network)))
         else (strs d)(''start_ip'' \<mapsto> [], ''end_ip'' \<mapsto> [], ''netmask'' \<mapsto> []))\<rparr>)"
  by (simp add: resourceNetworkApply_addresses_def d_Set_resourceNetwork)

lemma resourceNetworkApply_eq:
  "resourceNetworkApply env d network =
     (None, d\<lparr>Id := UUID_String env (Network_ID network),
        strs :=
        (if Network_StartIP network \<noteq> None \<and> Network_EndIP network \<noteq> None
            \<and> Network_Netmask network \<noteq> None
         then (strs d)(''name'' \<mapsto> Network_Name network,
                       ''display_text'' \<mapsto> Network_DisplayText network,
                       ''zone'' \<mapsto> Network_ZoneName network,
                       ''start_ip'' \<mapsto> IP_String env (the (Network_StartIP network)),
                       ''end_ip'' \<mapsto> IP_String env (the (Network_EndIP network)),
                       ''netmask'' \<mapsto> IP_String env (the (Network_Netmask network)))
         else (strs d)(''name'' \<mapsto> Network_Name network,
                       ''display_text'' \<mapsto> Network_DisplayText network,
                       ''zone'' \<mapsto> Network_ZoneName network,
                       ''start_ip'' \<mapsto> [], ''end_ip'' \<mapsto> [], ''netmask'' \<mapsto> [])),
        maps := (maps d)(''tags'' \<mapsto>
          foldl (\<lambda>m tag. m(Tag_Key tag \<mapsto> Tag_Value tag)) Map.empty (Network_Tags network))\<rparr>)"
  by (simp add: resourceNetworkApply_def resourceNetworkApply_addresses_eq
      d_Set_resourceNetwork d_SetMap_resourceNetwork d_SetId_def)

lemma dataSourceNetworkRead_apply_eq:
  "dataSourceNetworkRead_apply env d network =
     (None, d\<lparr>Id := UUID_String env (Network_ID network),
        strs :=
        (if Network_StartIP network \<noteq> None \<and> Network_EndIP network \<noteq> None
            \<and> Network_Netmask network \<noteq> None
         then (strs d)(''id'' \<mapsto> UUID_String env (Network_ID network),
                       ''name'' \<mapsto> Network_Name network,
                       ''description'' \<mapsto> Network_DisplayText network,
                       ''start_ip'' \<mapsto> IP_String env (the (Network_StartIP network)),
                       ''end_ip'' \<mapsto> IP_String env (the (Network_EndIP network)),
                       ''netmask'' \<mapsto> IP_String env (the (Network_Netmask network)))
         else (strs d)(''id'' \<mapsto> UUID_String env (Network_ID network),
                       ''name'' \<mapsto> Network_Name network,
                       ''description'' \<mapsto> Network_DisplayText network,
                       ''start_ip'' \<mapsto> [], ''end_ip'' \<mapsto> [], ''netmask'' \<mapsto> []))\<rparr>)"
  by (simp add: dataSourceNetworkRead_apply_def d_Set_dataSourceNetwork d_SetId_def)

lemma resourceNetworkApply_addresses_all_or_none:
  "addresses_all_or_none env network (snd (resourceNetworkApply env d network))"
  by (auto simp: resourceNetworkApply_eq addresses_all_or_none_def split: option.splits)

lemma dataSourceNetworkRead_apply_all_or_none:
  "addresses_all_or_none env network (snd (dataSourceNetworkRead_apply env d network))"
  by (auto simp: dataSourceNetworkRead_apply_eq addresses_all_or_none_def split: option.splits)

lemma dataSourceNetworkRead_loop_mem:
  "dataSourceNetworkRead_loop byID networkID networkName resp acc = Return (Inr (Some network))
   \<Longrightarrow> network \<in> set resp \<or> acc = Some network"
  by (induction resp arbitrary: acc) (auto split: if_splits)

lemma resourceNetworkRead_success:
  assumes "fst (resourceNetworkRead env d) = Return None"
  shows "\<exists>resp evs network rest.
           resourceNetworkFind env d = (Return (Inr resp), evs)
           \<and> Networks resp = network # rest
           \<and> resourceNetworkRead env d = (Return None, snd (resourceNetworkApply env d network), evs)"
proof -
  obtain r evs where f: "resourceNetworkFind env d = (r, evs)"
    by (cases "resourceNetworkFind env d") auto
  from assms f obtain resp where r: "r = Return (Inr resp)"
    by (cases r) (auto simp: resourceNetworkRead_def split: sum.splits)
  from assms f r obtain network rest where n: "Networks resp = network # rest"
    by (cases "Networks resp") (auto simp: resourceNetworkRead_def split: if_splits)
  from assms f r n have "resourceNetworkRead env d =
      (Return None, snd (resourceNetworkApply env d network), evs)"
    by (auto simp: resourceNetworkRead_def resourceNetworkApply_eq split: if_splits)
  with f r n show ?thesis by blast
qed

lemma dataSourceNetworkRead_success_loop:
  assumes "fst (dataSourceNetworkRead env d) = Return None"
  shows "\<exists>zone evs networkID resp network.
           getZoneByName env (d_Get d ''zone'') = (Inr zone, evs)
           \<and> ListWithContext env (ListNetworks None (Some (Zone_ID zone))) = Inr resp
           \<and> dataSourceNetworkRead_loop (d_GetOk d ''id'') networkID
                 (if d_GetOk d ''name'' then d_Get d ''name'' else []) resp None
               = Return (Inr (Some network))
           \<and> dataSourceNetworkRead env d =
               (Return None, snd (dataSourceNetworkRead_apply env d network),
                evs @ [Rpc (ListNetworks None (Some (Zone_ID zone)))])"
proof -
  obtain r evs where z: "getZoneByName env (d_Get d ''zone'') = (r, evs)"
    by (cases "getZoneByName env (d_Get d ''zone'')") auto
  from assms z obtain zone where r: "r = Inr zone"
    by (cases r) (auto simp: dataSourceNetworkRead_def)
  let ?byName = "d_GetOk d ''name''"
  let ?byID = "d_GetOk d ''id''"
  let ?name = "if ?byName then d_Get d ''name'' else []"
  let ?req = "ListNetworks None (Some (Zone_ID zone))"
  from assms z r have some: "?byName \<or> ?byID"
    by (auto simp: dataSourceNetworkRead_def Let_def split: if_splits)
  let ?parsed = "if ?byID then
                      (case ParseUUID env (d_Get d ''id'') of
                         Inl err \<Rightarrow> Inl (Errorf ''invalid value for id: %s'' [ArgError err])
                       | Inr u \<Rightarrow> Inr (Some u))
                    else Inr None"
  from assms z r some obtain networkID where p: "?parsed = Inr networkID"
    by (cases ?parsed) (auto simp: dataSourceNetworkRead_def Let_def)
  from assms z r some p obtain resp where l: "ListWithContext env ?req = Inr resp"
    by (cases "ListWithContext env ?req") (auto simp: dataSourceNetworkRead_def Let_def)
  from assms z r some p l obtain network where
    lp: "dataSourceNetworkRead_loop ?byID networkID ?name resp None = Return (Inr (Some network))"
    by (cases "dataSourceNetworkRead_loop ?byID networkID ?name resp None")
       (auto simp: dataSourceNetworkRead_def Let_def split: sum.splits option.splits)
  have "dataSourceNetworkRead env d =
          (Return None, snd (dataSourceNetworkRead_apply env d network), evs @ [Rpc ?req])"
    using z r some p l lp
    by (simp add: dataSourceNetworkRead_def Let_def dataSourceNetworkRead_apply_eq)
  with z r l lp show ?thesis by blast
qed

lemma dataSourceNetworkRead_success:
  assumes "fst (dataSourceNetworkRead env d) = Return None"
  shows "\<exists>zone evs resp network.
           getZoneByName env (d_Get d ''zone'') = (Inr zone, evs)
           \<and> ListWithContext env (ListNetworks None (Some (Zone_ID zone))) = Inr resp
           \<and> network \<in> set resp
           \<and> fst (snd (dataSourceNetworkRead env d)) = snd (dataSourceNetworkRead_apply env d network)"
proof -
  from dataSourceNetworkRead_success_loop [OF assms] obtain zone evs networkID resp network where
    z: "getZoneByName env (d_Get d ''zone'') = (Inr zone, evs)"
    and l: "ListWithContext env (ListNetworks None (Some (Zone_ID zone))) = Inr resp"
    and lp: "dataSourceNetworkRead_loop (d_GetOk d ''id'') networkID
                 (if d_GetOk d ''name'' then d_Get d ''name'' else []) resp None
               = Return (Inr (Some network))"
    and r: "dataSourceNetworkRead env d =
               (Return None, snd (dataSourceNetworkRead_apply env d network),
                evs @ [Rpc (ListNetworks None (Some (Zone_ID zone)))])"
    by blast
  from dataSourceNetworkRead_loop_mem [OF lp] have "network \<in> set resp" by simp
  with z l r show ?thesis by auto
qed

lemma resourceNetworkUpdate_keys_cleared:
  assumes "(fst (d_GetChange d ''start_ip'') \<noteq> [] \<and> snd (d_GetChange d ''start_ip'') = [])
         \<or> (fst (d_GetChange d ''end_ip'') \<noteq> [] \<and> snd (d_GetChange d ''end_ip'') = [])"
  shows "(d_HasChange d ''start_ip'' \<or> d_HasChange d ''end_ip'')
       \<and> resourceNetworkUpdate_keys d [''start_ip'', ''end_ip''] =
           Some (Errorf
             ''[ERROR] new value of %q cannot be empty. old value was %s. The resource must be recreated instead''
             (if fst (d_GetChange d ''start_ip'') \<noteq> [] \<and> snd (d_GetChange d ''start_ip'') = []
              then [ArgString ''start_ip'', ArgString (fst (d_GetChange d ''start_ip''))]
              else [ArgString ''end_ip'', ArgString (fst (d_GetChange d ''end_ip''))]))"
  using assms by (auto simp: d_HasChange_def split: prod.splits)

lemma getZoneByName_events: "snd (getZoneByName env zoneName) = [Rpc ListZones]"
  by (simp add: getZoneByName_def split: sum.splits response.splits option.splits)

lemma resourceNetworkCreate_validate_Some:
  assumes "(ParseIP env (d_Get d ''start_ip'') = None) \<noteq> (ParseIP env (d_Get d ''end_ip'') = None)
         \<or> (ParseIP env (d_Get d ''start_ip'') \<noteq> None \<and> ParseIP env (d_Get d ''end_ip'') \<noteq> None
            \<and> ParseIP env (d_Get d ''netmask'') = None)"
  shows "resourceNetworkCreate_validate env d =
           Some (if (ParseIP env (d_Get d ''start_ip'') = None) \<noteq> (ParseIP env (d_Get d ''end_ip'') = None)
                 then ErrorsNew ''start_ip and end_ip must be both specified''
                 else ErrorsNew ''netmask must be specified with start_ip and end_ip'')"
  using assms by (auto simp: resourceNetworkCreate_validate_def Let_def)

lemma resourceNetworkFind_zones_order:
  assumes "case dropWhile (zone_without_match env nid) zones of
             [] \<Rightarrow> True
           | zone # _ \<Rightarrow> zone_answer_handled env nid zone"
  shows "case dropWhile (zone_without_match env nid) zones of
           [] \<Rightarrow>
             resourceNetworkFind_zones env nid zones =
               (Return (Inl ErrNotFound),
                map (\<lambda>z. Rpc (ListNetworks (Some nid) (Some (Zone_ID z)))) zones)
         | zone # _ \<Rightarrow>
             (case client env (ListNetworks (Some nid) (Some (Zone_ID zone))) of
                Inl err \<Rightarrow>
                  resourceNetworkFind_zones env nid zones =
                    (Return (Inl err),
                     map (\<lambda>z. Rpc (ListNetworks (Some nid) (Some (Zone_ID z))))
                       (takeWhile (zone_without_match env nid) zones @ [zone]))
              | Inr r \<Rightarrow>
                  (\<exists>resp. r = ListNetworksResp resp \<and> 0 < Count resp
                     \<and> resourceNetworkFind_zones env nid zones =
                         (Return (Inr resp),
                          map (\<lambda>z. Rpc (ListNetworks (Some nid) (Some (Zone_ID z))))
                            (takeWhile (zone_without_match env nid) zones @ [zone]))))"
  using assms
proof (induction zones)
  case Nil
  then show ?case by simp
next
  case (Cons zone zones)
  show ?case
  proof (cases "zone_without_match env nid zone")
    case True
    with Cons.prems have rest:
      "case dropWhile (zone_without_match env nid) zones of
         [] \<Rightarrow> True
       | zone # _ \<Rightarrow> zone_answer_handled env nid zone"
      by simp
    note IH = Cons.IH [OF rest]
    from True have step: "resourceNetworkFind_zones env nid (zone # zones) =
        (fst (resourceNetworkFind_zones env nid zones),
         Rpc (ListNetworks (Some nid) (Some (Zone_ID zone)))
           # snd (resourceNetworkFind_zones env nid zones))"
      by (auto simp: zone_without_match_def split: sum.splits error.splits response.splits prod.splits)
    from True have dw: "dropWhile (zone_without_match env nid) (zone # zones)
          = dropWhile (zone_without_match env nid) zones"
      and tw: "takeWhile (zone_without_match env nid) (zone # zones)
          = zone # takeWhile (zone_without_match env nid) zones"
      by simp_all
    show ?thesis
    proof (cases "dropWhile (zone_without_match env nid) zones")
      case Nil
      show ?thesis
        using IH unfolding dw tw Nil
        by (simp add: step del: resourceNetworkFind_zones.simps)
    next
      case (Cons z rest)
      show ?thesis
        using IH unfolding dw tw Cons
        by (cases "client env (ListNetworks (Some nid) (Some (Zone_ID z)))")
           (auto simp: step simp del: resourceNetworkFind_zones.simps)
    qed
  next
    case False
    with Cons.prems have h: "zone_answer_handled env nid zone"
      by simp
    with False show ?thesis
      by (auto simp: zone_without_match_def zone_answer_handled_def
          split: sum.splits error.splits response.splits)
  qed
qed


lemma resourceNetworkFind_zones_answer:
  "resourceNetworkFind_zones env nid zones = (Return (Inr resp), evs) \<Longrightarrow>
   \<exists>zone \<in> set zones.
     client env (ListNetworks (Some nid) (Some (Zone_ID zone))) = Inr (ListNetworksResp resp)"
proof (induction zones arbitrary: evs)
  case Nil
  then show ?case by simp
next
  case (Cons zone zones)
  obtain r evs' where rest: "resourceNetworkFind_zones env nid zones = (r, evs')"
    by (cases "resourceNetworkFind_zones env nid zones") auto
  show ?case
  proof (cases "client env (ListNetworks (Some nid) (Some (Zone_ID zone))) = Inr (ListNetworksResp resp)")
    case True
    then show ?thesis by simp
  next
    case False
    with Cons.prems rest have "r = Return (Inr resp)"
      by (auto simp: Let_def split: sum.splits error.splits response.splits if_splits)
    with rest Cons.IH show ?thesis by auto
  qed
qed

lemma resourceNetworkFind_answer:
  assumes "resourceNetworkFind env d = (Return (Inr resp), evs)"
  shows "\<exists>nid zid. ParseUUID env (Id d) = Inr nid
           \<and> client env (ListNetworks (Some nid) zid) = Inr (ListNetworksResp resp)"
proof -
  from assms obtain nid where p: "ParseUUID env (Id d) = Inr nid"
    by (cases "ParseUUID env (Id d)") (auto simp: resourceNetworkFind_def)
  from assms p obtain zones where z: "client env ListZones = Inr (ListZonesResponse zones)"
    by (auto simp: resourceNetworkFind_def split: sum.splits response.splits)
  from assms p z obtain evs' where
    "resourceNetworkFind_zones env nid zones = (Return (Inr resp), evs')"
    by (auto simp: resourceNetworkFind_def split: prod.splits)
  from resourceNetworkFind_zones_answer [OF this] p show ?thesis by blast
qed

lemma resourceNetworkUpdate_success:
  assumes "fst (resourceNetworkUpdate env d) = Return None"
  shows "fst (resourceNetworkRead env d) = Return None
       \<and> fst (snd (resourceNetworkUpdate env d)) = fst (snd (resourceNetworkRead env d))"
proof -
  from assms obtain nid where p: "ParseUUID env (Id d) = Inr nid"
    by (cases "ParseUUID env (Id d)") (auto simp: resourceNetworkUpdate_def)
  let ?k = "if d_HasChange d ''start_ip'' \<or> d_HasChange d ''end_ip''
            then resourceNetworkUpdate_keys d [''start_ip'', ''end_ip''] else None"
  from assms p have k: "?k = None"
    by (cases ?k) (auto simp: resourceNetworkUpdate_def)
  from assms p k obtain requests where
    t: "updateTags env d ''tags'' Network_ResourceType = Inr requests"
    by (cases "updateTags env d ''tags'' Network_ResourceType")
       (auto simp: resourceNetworkUpdate_def Let_def)
  let ?u = "UpdateNetwork nid (d_Get d ''name'') (d_Get d ''display_text'')
              (ParseIP env (d_Get d ''start_ip'')) (ParseIP env (d_Get d ''end_ip''))
              (ParseIP env (d_Get d ''netmask''))"
  obtain e evs where r: "resourceNetworkUpdate_requests env (requests @ [?u]) = (e, evs)"
    by (cases "resourceNetworkUpdate_requests env (requests @ [?u])") auto
  from assms p k t r have e: "e = None"
    by (cases e) (auto simp: resourceNetworkUpdate_def Let_def)
  from assms p k t r e show ?thesis
    by (auto simp: resourceNetworkUpdate_def Let_def split: prod.splits)
qed









lemma dataSourceNetworkRead_loop_byName:
  "dataSourceNetworkRead_loop False networkID name resp acc =
     (case (acc, filter (\<lambda>n. Network_Name n = name) resp) of
        (None, []) \<Rightarrow> Return (Inr None)
      | (None, [network]) \<Rightarrow> Return (Inr (Some network))
      | (Some a, []) \<Rightarrow> Return (Inr (Some a))
      | _ \<Rightarrow>
          Return (Inl (Errorf
            ''found multiple networks named %q, please specify a unique ID instead''
            [ArgString name])))"
proof (induction resp arbitrary: acc)
  case Nil
  then show ?case by (cases acc) simp_all
next
  case (Cons net resp)
  show ?case
  proof (cases "Network_Name net = name")
    case True
    then show ?thesis
      by (cases acc; cases "filter (\<lambda>n. Network_Name n = name) resp")
         (simp_all add: Cons.IH split: list.splits)
  next
    case False
    then show ?thesis by (simp add: Cons.IH)
  qed
qed

lemma dataSourceDomainRead_loop_find:
  "\<forall>item \<in> set domains. DNSDomain_UnicodeName item \<noteq> None \<Longrightarrow>
   dataSourceDomainRead_loop name domains
     = Return (find (\<lambda>item. DNSDomain_UnicodeName item = Some name) domains)"
  by (induction domains) (auto split: option.splits)

lemma d_Set_dataSourceDomain:
  "d_Set dataSourceDomain d ''name'' v = (None, d\<lparr>strs := (strs d)(''name'' \<mapsto> v)\<rparr>)"
  by (simp add: d_Set_def dataSourceDomain_def)

lemma dataSourceNetworkRead_byName:
  assumes "getZoneByName env (d_Get d ''zone'') = (Inr zone, evs)"
    and "d_Get d ''name'' \<noteq> []"
    and "d_Get d ''id'' = []"
    and "ListWithContext env (ListNetworks None (Some (Zone_ID zone))) = Inr resp"
  shows "dataSourceNetworkRead env d =
           (case dataSourceNetworkRead_loop False None (d_Get d ''name'') resp None of
              Panic \<Rightarrow> (Panic, d, evs @ [Rpc (ListNetworks None (Some (Zone_ID zone)))])
            | Return (Inl err) \<Rightarrow>
                (Return (Some err), d, evs @ [Rpc (ListNetworks None (Some (Zone_ID zone)))])
            | Return (Inr None) \<Rightarrow>
                (Return (Some (ErrorsNew ''network not found'')), d,
                 evs @ [Rpc (ListNetworks None (Some (Zone_ID zone)))])
            | Return (Inr (Some network)) \<Rightarrow>
                (Return None, snd (dataSourceNetworkRead_apply env d network),
                 evs @ [Rpc (ListNetworks None (Some (Zone_ID zone)))]))"
  using assms
  by (simp add: dataSourceNetworkRead_def Let_def d_GetOk_def dataSourceNetworkRead_apply_eq
      split: outcome.splits sum.splits option.splits)







section \<open>The example inputs, evaluated\<close>

lemma example_env_fields:
  "client example_env = example_client"
  "ParseUUID example_env = example_ParseUUID"
  "UUID_String example_env = example_UUID_String"
  "ParseIP example_env = example_ParseIP"
  "IP_String example_env = example_IP_String"
  "defaultZone example_env = ''ch-gva-2''"
  "createTags example_env = (\<lambda>d key resourceType. Inr None)"
  "updateTags example_env = (\<lambda>d key resourceType. Inr [])"
  by (simp_all add: example_env_def)

lemma example_UUID_String_values:
  "example_UUID_String (UUID 2) = ''u11''"
  "example_UUID_String (UUID 5) = ''u11111''"
  "example_UUID_String (UUID 6) = ''u111111''"
  "example_UUID_String (UUID 7) = ''u1111111''"
  by (simp_all add: example_UUID_String_def eval_nat_numeral)

lemma example_ParseUUID_values:
  "example_ParseUUID ''u11'' = Inr (UUID 2)"
  "example_ParseUUID ''u11111'' = Inr (UUID 5)"
  "example_ParseUUID [] = Inl (OtherError ''invalid UUID'')"
  by (simp_all add: example_ParseUUID_def)


lemma getZoneByName_example:
  "client env ListZones = Inr (ListZonesResponse [example_zone_fra, example_zone_gva]) \<Longrightarrow>
   getZoneByName env ''ch-gva-2'' = (Inr example_zone_gva, [Rpc ListZones])"
  by (simp add: getZoneByName_def example_zone_fra_def example_zone_gva_def)

lemma example_half_range_Get:
  "d_Get example_half_range ''zone'' = ''ch-gva-2''"
  "d_Get example_half_range ''start_ip'' = ''10.0.0.10''"
  "d_Get example_half_range ''end_ip'' = []"
  "d_Get example_half_range ''netmask'' = ''255.255.255.0''"
  by (simp_all add: d_Get_def example_half_range_def)

lemma example_ParseIP_values:
  "example_ParseIP ''10.0.0.10'' = Some (IP [10, 0, 0, 10])"
  "example_ParseIP ''10.0.0.50'' = Some (IP [10, 0, 0, 50])"
  "example_ParseIP ''255.255.255.0'' = Some (IP [255, 255, 255, 0])"
  "example_ParseIP [] = None"
  by (simp_all add: example_ParseIP_def)

lemma example_config_Get:
  "d_Get example_config ''zone'' = ''ch-gva-2''"
  "d_Get example_config ''name'' = ''private''"
  "d_Get example_config ''display_text'' = []"
  "d_Get example_config ''start_ip'' = ''10.0.0.10''"
  "d_Get example_config ''end_ip'' = ''10.0.0.50''"
  "d_Get example_config ''netmask'' = ''255.255.255.0''"
  by (simp_all add: d_Get_def example_config_def)

lemma example_config_validate:
  "ParseIP env = example_ParseIP \<Longrightarrow> resourceNetworkCreate_validate env example_config = None"
  by (simp add: resourceNetworkCreate_validate_def example_config_Get example_ParseIP_values)

lemma example_config_req:
  "ParseIP env = example_ParseIP \<Longrightarrow>
   resourceNetworkCreate_req env example_config example_zone_gva =
     CreateNetwork ''private'' ''private'' (UUID 3) (Some (IP [10, 0, 0, 10]))
       (Some (IP [10, 0, 0, 50])) (Some (IP [255, 255, 255, 0]))"
  by (simp add: resourceNetworkCreate_req_def Let_def example_config_Get example_ParseIP_values
      example_zone_gva_def)

lemma example_env_tags_fail_fields:
  "client example_env_tags_fail ListZones =
     Inr (ListZonesResponse [example_zone_fra, example_zone_gva])"
  "client example_env_tags_fail
     (CreateNetwork name displayText zid startIP endIP netmask) = Inr (NetworkResp example_network)"
  "client example_env_tags_fail (CreateTags (UUID 2) ''Network'' [(''env'', ''prod'')]) =
     Inl (ErrorResponse (OtherCode 500) ''tags unavailable'')"
  "client example_env_tags_fail (DeleteNetwork (UUID 2)) = Inl (OtherError ''connection reset'')"
  "ParseIP example_env_tags_fail = example_ParseIP"
  "UUID_String example_env_tags_fail = example_UUID_String"
  "createTags example_env_tags_fail d key resourceType =
     Inr (Some (CreateTags (UUID 2) resourceType [(''env'', ''prod'')]))"
  by (simp_all add: example_env_tags_fail_def example_env_def)

lemma example_env_Find:
  assumes "Id d = ''u11''"
  shows "resourceNetworkFind example_env d =
           (Return (Inr \<lparr>Count = 1, Networks = [example_network]\<rparr>),
            [Rpc ListZones, Rpc (ListNetworks (Some (UUID 2)) (Some (UUID 4))),
             Rpc (ListNetworks (Some (UUID 2)) (Some (UUID 3)))])"
  by (simp add: resourceNetworkFind_def assms example_env_fields example_ParseUUID_values
      example_zone_fra_def example_zone_gva_def)

lemma example_env_Read:
  assumes "Id d = ''u11''"
  shows "resourceNetworkRead example_env d =
           (Return None, snd (resourceNetworkApply example_env d example_network),
            [Rpc ListZones, Rpc (ListNetworks (Some (UUID 2)) (Some (UUID 4))),
             Rpc (ListNetworks (Some (UUID 2)) (Some (UUID 3)))])"
  by (simp add: resourceNetworkRead_def example_env_Find [OF assms] resourceNetworkApply_eq)

lemma example_network_fields:
  "Network_ID example_network = UUID 2"
  "Network_Name example_network = ''private''"
  "Network_DisplayText example_network = ''private''"
  "Network_ZoneName example_network = ''ch-gva-2''"
  "Network_StartIP example_network = Some (IP [10, 0, 0, 10])"
  "Network_EndIP example_network = Some (IP [10, 0, 0, 50])"
  "Network_Netmask example_network = Some (IP [255, 255, 255, 0])"
  "Network_Tags example_network = [\<lparr>Tag_Key = ''env'', Tag_Value = ''prod''\<rparr>]"
  by (simp_all add: example_network_def)

lemma example_IP_String_values:
  "example_IP_String (IP [10, 0, 0, 10]) = ''10.0.0.10''"
  "example_IP_String (IP [10, 0, 0, 50]) = ''10.0.0.50''"
  "example_IP_String (IP [255, 255, 255, 0]) = ''255.255.255.0''"
  by (simp_all add: example_IP_String_def)

lemma example_network_query_Get:
  "d_Get example_network_query ''zone'' = ''ch-gva-2''"
  "d_Get example_network_query ''name'' = ''private''"
  "d_Get example_network_query ''id'' = []"
  by (simp_all add: d_Get_def example_network_query_def)

lemma example_env_dataSourceNetworkRead:
  "dataSourceNetworkRead example_env example_network_query =
     (Return None, snd (dataSourceNetworkRead_apply example_env example_network_query example_network),
      [Rpc ListZones, Rpc (ListNetworks None (Some (UUID 3)))])"
  by (simp add: dataSourceNetworkRead_def Let_def d_GetOk_def example_network_query_Get
      example_env_fields getZoneByName_example ListWithContext_def example_zone_gva_def
      example_network_fields dataSourceNetworkRead_apply_eq)

lemma example_unauthorized_fields:
  "ParseUUID example_env_unauthorized = example_ParseUUID"
  "client example_env_unauthorized ListZones = Inr (ListZonesResponse [example_zone_gva])"
  "client example_env_unauthorized (ListNetworks (Some (UUID 2)) (Some (UUID 3))) =
     Inl (ErrorResponse (OtherCode 401) ''unauthorized'')"
  by (simp_all add: example_env_unauthorized_def example_env_def)

lemma example_zone_ids:
  "Zone_ID example_zone_fra = UUID 4"
  "Zone_ID example_zone_gva = UUID 3"
  by (simp_all add: example_zone_fra_def example_zone_gva_def)

lemma example_env_zone_answers:
  "zone_without_match example_env (UUID 2) example_zone_fra"
  "\<not> zone_without_match example_env (UUID 2) example_zone_gva"
  "zone_answer_handled example_env (UUID 2) example_zone_fra"
  "zone_answer_handled example_env (UUID 2) example_zone_gva"
  by (simp_all add: zone_without_match_def zone_answer_handled_def example_env_fields
      example_zone_fra_def example_zone_gva_def)

lemma example_timeout_fields:
  "ParseUUID example_env_timeout = example_ParseUUID"
  "client example_env_timeout ListZones = Inr (ListZonesResponse [example_zone_gva])"
  "client example_env_timeout (ListNetworks (Some (UUID 2)) (Some (UUID 3))) =
     Inl (OtherError ''context deadline exceeded'')"
  by (simp_all add: example_env_timeout_def example_env_def)

lemma example_env_lists_queried_network: "lists_queried_network example_env u"
  by (auto simp: lists_queried_network_def example_env_fields example_network_fields
      split: if_splits)

lemma example_stored_fields:
  "Id example_stored = ''u11''"
  "d_Get example_stored ''name'' = ''private''"
  "d_Get example_stored ''display_text'' = ''lab network''"
  "d_Get example_stored ''start_ip'' = ''10.0.0.10''"
  "d_Get example_stored ''end_ip'' = ''10.0.0.50''"
  "d_Get example_stored ''netmask'' = ''255.255.255.0''"
  "d_HasChange example_stored ''start_ip'' = False"
  "d_HasChange example_stored ''end_ip'' = False"
  by (simp_all add: d_HasChange_def d_GetChange_def d_Get_def example_stored_def)

lemma example_env_Update:
  "resourceNetworkUpdate example_env example_stored =
     (Return None, snd (resourceNetworkApply example_env example_stored example_network),
      [Rpc (UpdateNetwork (UUID 2) ''private'' ''lab network'' (Some (IP [10, 0, 0, 10]))
              (Some (IP [10, 0, 0, 50])) (Some (IP [255, 255, 255, 0]))),
       Rpc ListZones, Rpc (ListNetworks (Some (UUID 2)) (Some (UUID 4))),
       Rpc (ListNetworks (Some (UUID 2)) (Some (UUID 3)))])"
  by (simp add: resourceNetworkUpdate_def example_stored_fields example_env_fields
      example_ParseUUID_values example_ParseIP_values example_env_Read)





lemma example_network_twin_fields:
  "Network_ID example_network_twin = UUID 7"
  "Network_Name example_network_twin = ''private''"
  by (simp_all add: example_network_twin_def example_network_def)

lemma example_two_networks_fields:
  "client example_env_two_networks ListZones =
     Inr (ListZonesResponse [example_zone_fra, example_zone_gva])"
  "client example_env_two_networks (ListNetworks None (Some (UUID 3))) =
     Inr (ListNetworksResp \<lparr>Count = 2, Networks = [example_network, example_network_twin]\<rparr>)"
  by (simp_all add: example_env_two_networks_def example_env_def)

lemma example_network_query_unknown_Get:
  "d_Get example_network_query_unknown ''zone'' = ''ch-gva-2''"
  "d_Get example_network_query_unknown ''name'' = ''public''"
  "d_Get example_network_query_unknown ''id'' = []"
  by (simp_all add: d_Get_def example_network_query_unknown_def)

lemma example_domain_fields:
  "DNSDomain_ID example_domain = Some ''d1''"
  "DNSDomain_UnicodeName example_domain = Some ''example.net''"
  "DNSDomain_ID example_domain_twin = Some ''d2''"
  "DNSDomain_UnicodeName example_domain_twin = Some ''example.net''"
  "d_Get example_domain_query ''name'' = ''example.net''"
  by (simp_all add: example_domain_def example_domain_twin_def d_Get_def example_domain_query_def)

lemma example_env_any_case_fields:
  "client example_env_any_case = example_client"
  "ParseUUID example_env_any_case = example_ParseUUID_any_case"
  "UUID_String example_env_any_case = example_UUID_String"
  "ParseIP example_env_any_case = example_ParseIP"
  "IP_String example_env_any_case = example_IP_String"
  "updateTags example_env_any_case = (\<lambda>d key resourceType. Inr [])"
  by (simp_all add: example_env_any_case_def example_env_def)

lemma example_ParseUUID_any_case_values:
  "example_ParseUUID_any_case ''U11'' = Inr (UUID 2)"
  by (simp add: example_ParseUUID_any_case_def example_ParseUUID_values)

lemma example_stored_capital_fields:
  "Id example_stored_capital = ''U11''"
  "d_Get example_stored_capital ''name'' = ''private''"
  "d_Get example_stored_capital ''display_text'' = ''lab network''"
  "d_Get example_stored_capital ''start_ip'' = ''10.0.0.10''"
  "d_Get example_stored_capital ''end_ip'' = ''10.0.0.50''"
  "d_Get example_stored_capital ''netmask'' = ''255.255.255.0''"
  "d_HasChange example_stored_capital ''start_ip'' = False"
  "d_HasChange example_stored_capital ''end_ip'' = False"
  by (simp_all add: d_HasChange_def d_GetChange_def d_Get_def example_stored_capital_def
      example_stored_def)

lemma example_env_any_case_Read:
  "resourceNetworkRead example_env_any_case example_stored_capital =
     (Return None,
      snd (resourceNetworkApply example_env_any_case example_stored_capital example_network),
      [Rpc ListZones, Rpc (ListNetworks (Some (UUID 2)) (Some (UUID 4))),
       Rpc (ListNetworks (Some (UUID 2)) (Some (UUID 3)))])"
  by (simp add: resourceNetworkRead_def resourceNetworkFind_def example_env_any_case_fields
      example_stored_capital_fields example_ParseUUID_any_case_values
      example_zone_fra_def example_zone_gva_def resourceNetworkApply_eq)




section \<open>Lookup by name\<close>

text \<open>
  Claim C1, as amended. The read of the network data source by name (the zone resolves,
  a name and no identifier is given, the zone's networks are listed) fails with the
  not-found error when no listed network has the name, fails with the error that asks for
  a unique identifier when more than one has it, and succeeds when exactly one has it,
  with the identifier, the name, the description and the addresses of the state record
  set from that network. The read of the domain data source (the domains are listed, each
  with a name and an identifier) fails with the not-found error when no listed domain has
  the name, and otherwise succeeds with the identifier and the name of the first listed
  domain of that name: it has no ambiguity error.
\<close>

theorem lookup_by_name:
  "(getZoneByName env (d_Get d ''zone'') = (Inr zone, evs)
      \<and> d_Get d ''name'' \<noteq> [] \<and> d_Get d ''id'' = []
      \<and> ListWithContext env (ListNetworks None (Some (Zone_ID zone))) = Inr resp
    \<longrightarrow> (case filter (\<lambda>n. Network_Name n = d_Get d ''name'') resp of
          [] \<Rightarrow>
            fst (dataSourceNetworkRead env d) = Return (Some (ErrorsNew ''network not found''))
            \<and> fst (snd (dataSourceNetworkRead env d)) = d
        | [network] \<Rightarrow>
            fst (dataSourceNetworkRead env d) = Return None
            \<and> Id (fst (snd (dataSourceNetworkRead env d))) = UUID_String env (Network_ID network)
            \<and> strs (fst (snd (dataSourceNetworkRead env d))) ''id''
                = Some (UUID_String env (Network_ID network))
            \<and> strs (fst (snd (dataSourceNetworkRead env d))) ''name''
                = Some (Network_Name network)
            \<and> strs (fst (snd (dataSourceNetworkRead env d))) ''description''
                = Some (Network_DisplayText network)
            \<and> addresses_all_or_none env network (fst (snd (dataSourceNetworkRead env d)))
        | _ \<Rightarrow>
            fst (dataSourceNetworkRead env d) =
              Return (Some (Errorf
                ''found multiple networks named %q, please specify a unique ID instead''
                [ArgString (d_Get d ''name'')]))
            \<and> fst (snd (dataSourceNetworkRead env d)) = d))
   \<and> (client_ListDNSDomains env (defaultZone env) = Inr domains
      \<and> (\<forall>item \<in> set domains. DNSDomain_UnicodeName item \<noteq> None \<and> DNSDomain_ID item \<noteq> None)
    \<longrightarrow> (case find (\<lambda>item. DNSDomain_UnicodeName item = Some (d_Get d' ''name'')) domains of
          None \<Rightarrow>
            fst (dataSourceDomainRead env d') =
              Return (Some (Errorf ''domain %q not found'' [ArgString (d_Get d' ''name'')]))
            \<and> fst (snd (dataSourceDomainRead env d')) = d'
        | Some domain \<Rightarrow>
            fst (dataSourceDomainRead env d') = Return None
            \<and> Some (Id (fst (snd (dataSourceDomainRead env d')))) = DNSDomain_ID domain
            \<and> strs (fst (snd (dataSourceDomainRead env d'))) ''name''
                = DNSDomain_UnicodeName domain))"
proof (intro conjI impI)
  assume a: "getZoneByName env (d_Get d ''zone'') = (Inr zone, evs)
      \<and> d_Get d ''name'' \<noteq> [] \<and> d_Get d ''id'' = []
      \<and> ListWithContext env (ListNetworks None (Some (Zone_ID zone))) = Inr resp"
  then have r: "dataSourceNetworkRead env d =
           (case dataSourceNetworkRead_loop False None (d_Get d ''name'') resp None of
              Panic \<Rightarrow> (Panic, d, evs @ [Rpc (ListNetworks None (Some (Zone_ID zone)))])
            | Return (Inl err) \<Rightarrow>
                (Return (Some err), d, evs @ [Rpc (ListNetworks None (Some (Zone_ID zone)))])
            | Return (Inr None) \<Rightarrow>
                (Return (Some (ErrorsNew ''network not found'')), d,
                 evs @ [Rpc (ListNetworks None (Some (Zone_ID zone)))])
            | Return (Inr (Some network)) \<Rightarrow>
                (Return None, snd (dataSourceNetworkRead_apply env d network),
                 evs @ [Rpc (ListNetworks None (Some (Zone_ID zone)))]))"
    by (intro dataSourceNetworkRead_byName) simp_all
  let ?ms = "filter (\<lambda>n. Network_Name n = d_Get d ''name'') resp"
  show "case ?ms of
          [] \<Rightarrow>
            fst (dataSourceNetworkRead env d) = Return (Some (ErrorsNew ''network not found''))
            \<and> fst (snd (dataSourceNetworkRead env d)) = d
        | [network] \<Rightarrow>
            fst (dataSourceNetworkRead env d) = Return None
            \<and> Id (fst (snd (dataSourceNetworkRead env d))) = UUID_String env (Network_ID network)
            \<and> strs (fst (snd (dataSourceNetworkRead env d))) ''id''
                = Some (UUID_String env (Network_ID network))
            \<and> strs (fst (snd (dataSourceNetworkRead env d))) ''name''
                = Some (Network_Name network)
            \<and> strs (fst (snd (dataSourceNetworkRead env d))) ''description''
                = Some (Network_DisplayText network)
            \<and> addresses_all_or_none env network (fst (snd (dataSourceNetworkRead env d)))
        | _ \<Rightarrow>
            fst (dataSourceNetworkRead env d) =
              Return (Some (Errorf
                ''found multiple networks named %q, please specify a unique ID instead''
                [ArgString (d_Get d ''name'')]))
            \<and> fst (snd (dataSourceNetworkRead env d)) = d"
  proof (cases ?ms)
    case Nil
    then show ?thesis
      by (simp add: r dataSourceNetworkRead_loop_byName)
  next
    case (Cons network rest)
    show ?thesis
    proof (cases rest)
      case Nil
      with Cons have one: "?ms = [network]" by simp
      have all: "addresses_all_or_none env network
                   (snd (dataSourceNetworkRead_apply env d network))"
        by (rule dataSourceNetworkRead_apply_all_or_none)
      have st: "snd (dataSourceNetworkRead env d)
            = (snd (dataSourceNetworkRead_apply env d network),
               evs @ [Rpc (ListNetworks None (Some (Zone_ID zone)))])"
        and ok: "fst (dataSourceNetworkRead env d) = Return None"
        by (simp_all add: r dataSourceNetworkRead_loop_byName one)
      from all show ?thesis
        unfolding one by (simp add: ok st) (simp add: dataSourceNetworkRead_apply_eq)
    next
      case (Cons network' rest')
      with \<open>?ms = network # rest\<close> show ?thesis
        by (simp add: r dataSourceNetworkRead_loop_byName)
    qed
  qed
next
  assume a: "client_ListDNSDomains env (defaultZone env) = Inr domains
      \<and> (\<forall>item \<in> set domains. DNSDomain_UnicodeName item \<noteq> None \<and> DNSDomain_ID item \<noteq> None)"
  then have l: "client_ListDNSDomains env (defaultZone env) = Inr domains"
    and names: "\<forall>item \<in> set domains. DNSDomain_UnicodeName item \<noteq> None"
    and ids: "\<forall>item \<in> set domains. DNSDomain_ID item \<noteq> None"
    by simp_all
  let ?f = "find (\<lambda>item. DNSDomain_UnicodeName item = Some (d_Get d' ''name'')) domains"
  note lp = dataSourceDomainRead_loop_find [OF names, of "d_Get d' ''name''"]
  show "case ?f of
          None \<Rightarrow>
            fst (dataSourceDomainRead env d') =
              Return (Some (Errorf ''domain %q not found'' [ArgString (d_Get d' ''name'')]))
            \<and> fst (snd (dataSourceDomainRead env d')) = d'
        | Some domain \<Rightarrow>
            fst (dataSourceDomainRead env d') = Return None
            \<and> Some (Id (fst (snd (dataSourceDomainRead env d')))) = DNSDomain_ID domain
            \<and> strs (fst (snd (dataSourceDomainRead env d'))) ''name''
                = DNSDomain_UnicodeName domain"
  proof (cases ?f)
    case None
    then show ?thesis
      by (simp add: dataSourceDomainRead_def Let_def l lp)
  next
    case (Some domain)
    then have m: "domain \<in> set domains"
      and nm: "DNSDomain_UnicodeName domain = Some (d_Get d' ''name'')"
      by (auto simp: find_Some_iff)
    from m ids obtain i where i: "DNSDomain_ID domain = Some i" by auto
    from Some show ?thesis
      by (simp add: dataSourceDomainRead_def Let_def l lp i nm d_Set_dataSourceDomain d_SetId_def)
  qed
qed

text \<open>
  The amended claim at the example remotes: one network of the name, two networks of the
  name, no network of the name, and one domain of the name.
\<close>

theorem lookup_by_name_witness:
  "getZoneByName example_env (d_Get example_network_query ''zone'')
     = (Inr example_zone_gva, [Rpc ListZones])
   \<and> d_Get example_network_query ''name'' = ''private''
   \<and> d_Get example_network_query ''id'' = []
   \<and> ListWithContext example_env (ListNetworks None (Some (Zone_ID example_zone_gva)))
       = Inr [example_network]
   \<and> fst (dataSourceNetworkRead example_env example_network_query) = Return None
   \<and> Id (fst (snd (dataSourceNetworkRead example_env example_network_query))) = ''u11''
   \<and> ListWithContext example_env_two_networks (ListNetworks None (Some (Zone_ID example_zone_gva)))
       = Inr [example_network, example_network_twin]
   \<and> fst (dataSourceNetworkRead example_env_two_networks example_network_query) =
       Return (Some (Errorf
         ''found multiple networks named %q, please specify a unique ID instead''
         [ArgString ''private'']))
   \<and> fst (dataSourceNetworkRead example_env example_network_query_unknown) =
       Return (Some (ErrorsNew ''network not found''))
   \<and> client_ListDNSDomains example_env (defaultZone example_env) = Inr [example_domain]
   \<and> fst (dataSourceDomainRead example_env example_domain_query) = Return None
   \<and> Id (fst (snd (dataSourceDomainRead example_env example_domain_query))) = ''d1''"
proof -
  have z: "getZoneByName example_env (d_Get example_network_query ''zone'')
             = (Inr example_zone_gva, [Rpc ListZones])"
    by (simp add: example_network_query_Get getZoneByName_example example_env_fields)
  have z2: "getZoneByName example_env_two_networks (d_Get example_network_query ''zone'')
             = (Inr example_zone_gva, [Rpc ListZones])"
    by (simp add: example_network_query_Get getZoneByName_example example_two_networks_fields)
  have z3: "getZoneByName example_env (d_Get example_network_query_unknown ''zone'')
             = (Inr example_zone_gva, [Rpc ListZones])"
    by (simp add: example_network_query_unknown_Get getZoneByName_example example_env_fields)
  have l: "ListWithContext example_env (ListNetworks None (Some (Zone_ID example_zone_gva)))
             = Inr [example_network]"
    by (simp add: ListWithContext_def example_env_fields example_zone_ids)
  have l2: "ListWithContext example_env_two_networks
              (ListNetworks None (Some (Zone_ID example_zone_gva)))
             = Inr [example_network, example_network_twin]"
    by (simp add: ListWithContext_def example_two_networks_fields example_zone_ids)
  have dl: "client_ListDNSDomains example_env (defaultZone example_env) = Inr [example_domain]"
    by (simp add: example_env_def)
  have h1: "getZoneByName example_env (d_Get example_network_query ''zone'')
               = (Inr example_zone_gva, [Rpc ListZones])
      \<and> d_Get example_network_query ''name'' \<noteq> [] \<and> d_Get example_network_query ''id'' = []
      \<and> ListWithContext example_env (ListNetworks None (Some (Zone_ID example_zone_gva)))
          = Inr [example_network]"
    using z l by (simp add: example_network_query_Get)
  have h2: "getZoneByName example_env_two_networks (d_Get example_network_query ''zone'')
               = (Inr example_zone_gva, [Rpc ListZones])
      \<and> d_Get example_network_query ''name'' \<noteq> [] \<and> d_Get example_network_query ''id'' = []
      \<and> ListWithContext example_env_two_networks
            (ListNetworks None (Some (Zone_ID example_zone_gva)))
          = Inr [example_network, example_network_twin]"
    using z2 l2 by (simp add: example_network_query_Get)
  have h3: "getZoneByName example_env (d_Get example_network_query_unknown ''zone'')
               = (Inr example_zone_gva, [Rpc ListZones])
      \<and> d_Get example_network_query_unknown ''name'' \<noteq> []
      \<and> d_Get example_network_query_unknown ''id'' = []
      \<and> ListWithContext example_env (ListNetworks None (Some (Zone_ID example_zone_gva)))
          = Inr [example_network]"
    using z3 l by (simp add: example_network_query_unknown_Get)
  have h4: "client_ListDNSDomains example_env (defaultZone example_env) = Inr [example_domain]
      \<and> (\<forall>item \<in> set [example_domain].
            DNSDomain_UnicodeName item \<noteq> None \<and> DNSDomain_ID item \<noteq> None)"
    by (simp add: dl example_domain_fields)
  note t = lookup_by_name
  from t [THEN conjunct1, rule_format, OF h1]
  have one: "fst (dataSourceNetworkRead example_env example_network_query) = Return None
      \<and> Id (fst (snd (dataSourceNetworkRead example_env example_network_query))) = ''u11''"
    by (simp add: example_network_query_Get example_network_fields example_env_fields
        example_UUID_String_values)
  from t [THEN conjunct1, rule_format, OF h2]
  have two: "fst (dataSourceNetworkRead example_env_two_networks example_network_query) =
       Return (Some (Errorf
         ''found multiple networks named %q, please specify a unique ID instead''
         [ArgString ''private'']))"
    by (simp add: example_network_query_Get example_network_fields example_network_twin_fields)
  from t [THEN conjunct1, rule_format, OF h3]
  have none: "fst (dataSourceNetworkRead example_env example_network_query_unknown) =
       Return (Some (ErrorsNew ''network not found''))"
    by (simp add: example_network_query_unknown_Get example_network_fields)
  from t [THEN conjunct2, rule_format, OF h4, of example_domain_query]
  have dom: "fst (dataSourceDomainRead example_env example_domain_query) = Return None
      \<and> Id (fst (snd (dataSourceDomainRead example_env example_domain_query))) = ''d1''"
    by (simp add: example_domain_fields)
  from z l l2 dl one two none dom show ?thesis
    by (simp add: example_network_query_Get)
qed

text \<open>
  Claim C1 as stated fails for the domain data source: with two listed domains of the
  queried name the read succeeds and takes the first.
\<close>

theorem dataSourceDomainRead_takes_first_of_two:
  "client_ListDNSDomains example_env_two_domains (defaultZone example_env_two_domains)
     = Inr [example_domain, example_domain_twin]
   \<and> DNSDomain_UnicodeName example_domain = Some (d_Get example_domain_query ''name'')
   \<and> DNSDomain_UnicodeName example_domain_twin = Some (d_Get example_domain_query ''name'')
   \<and> fst (dataSourceDomainRead example_env_two_domains example_domain_query) = Return None
   \<and> Id (fst (snd (dataSourceDomainRead example_env_two_domains example_domain_query))) = ''d1''"
  by (simp add: dataSourceDomainRead_def Let_def example_env_two_domains_def example_env_def
      example_domain_fields d_Set_dataSourceDomain d_SetId_def)

section \<open>Validation before the create request\<close>

text \<open>
  Claim C2, as amended. A create call whose range is half given (a start without an end,
  or an end without a start), or whose range has no mask, sends the zone lookup and
  nothing else: no create request, no tag request, no delete request. It leaves the state
  record as it was, and returns the zone lookup's error when that lookup fails, and the
  validation error otherwise.
\<close>

theorem resourceNetworkCreate_validation_before_create:
  assumes "(ParseIP env (d_Get d ''start_ip'') = None) \<noteq> (ParseIP env (d_Get d ''end_ip'') = None)
         \<or> (ParseIP env (d_Get d ''start_ip'') \<noteq> None \<and> ParseIP env (d_Get d ''end_ip'') \<noteq> None
            \<and> ParseIP env (d_Get d ''netmask'') = None)"
  shows "resourceNetworkCreate env d =
           (Return (Some
              (case fst (getZoneByName env (d_Get d ''zone'')) of
                 Inl err \<Rightarrow> err
               | Inr zone \<Rightarrow>
                   if (ParseIP env (d_Get d ''start_ip'') = None)
                        \<noteq> (ParseIP env (d_Get d ''end_ip'') = None)
                   then ErrorsNew ''start_ip and end_ip must be both specified''
                   else ErrorsNew ''netmask must be specified with start_ip and end_ip'')),
            d, [Rpc ListZones])"
proof -
  obtain r evs where z: "getZoneByName env (d_Get d ''zone'') = (r, evs)"
    by (cases "getZoneByName env (d_Get d ''zone'')") auto
  have evs: "evs = [Rpc ListZones]"
    using getZoneByName_events [of env "d_Get d ''zone''"] z by simp
  show ?thesis
  proof (cases r)
    case (Inl err)
    with z evs show ?thesis by (simp add: resourceNetworkCreate_def)
  next
    case (Inr zone)
    with z evs resourceNetworkCreate_validate_Some [OF assms] show ?thesis
      by (simp add: resourceNetworkCreate_def)
  qed
qed

text \<open>
  The amended claim at the example configuration without the end of the range.
\<close>

theorem resourceNetworkCreate_validation_before_create_witness:
  "ParseIP example_env (d_Get example_half_range ''start_ip'') \<noteq> None
   \<and> ParseIP example_env (d_Get example_half_range ''end_ip'') = None
   \<and> fst (resourceNetworkCreate example_env example_half_range) =
       Return (Some (ErrorsNew ''start_ip and end_ip must be both specified''))
   \<and> fst (snd (resourceNetworkCreate example_env example_half_range)) = example_half_range
   \<and> snd (snd (resourceNetworkCreate example_env example_half_range)) = [Rpc ListZones]"
proof -
  have s: "ParseIP example_env (d_Get example_half_range ''start_ip'') = Some (IP [10, 0, 0, 10])"
    and e: "ParseIP example_env (d_Get example_half_range ''end_ip'') = None"
    by (simp_all add: example_env_fields example_half_range_Get example_ParseIP_values)
  have z: "getZoneByName example_env (d_Get example_half_range ''zone'')
             = (Inr example_zone_gva, [Rpc ListZones])"
    by (simp add: example_env_fields getZoneByName_example example_half_range_Get)
  have h: "(ParseIP example_env (d_Get example_half_range ''start_ip'') = None)
             \<noteq> (ParseIP example_env (d_Get example_half_range ''end_ip'') = None)
         \<or> (ParseIP example_env (d_Get example_half_range ''start_ip'') \<noteq> None
            \<and> ParseIP example_env (d_Get example_half_range ''end_ip'') \<noteq> None
            \<and> ParseIP example_env (d_Get example_half_range ''netmask'') = None)"
    by (simp add: s e)
  from resourceNetworkCreate_validation_before_create [OF h] show ?thesis
    by (simp add: s e z)
qed

text \<open>
  Claim C2 as stated fails: for the example configuration without the end of the range,
  the zones are listed before the validation error is returned.
\<close>

theorem resourceNetworkCreate_validation_after_zone_lookup:
  "resourceNetworkCreate example_env example_half_range =
     (Return (Some (ErrorsNew ''start_ip and end_ip must be both specified'')),
      example_half_range, [Rpc ListZones])"
  by (simp add: resourceNetworkCreate_def resourceNetworkCreate_validate_def
      example_env_fields getZoneByName_example example_half_range_Get example_ParseIP_values)

section \<open>An update never clears a range\<close>

text \<open>
  Claim C3. An update of a network whose \<open>start_ip\<close> or \<open>end_ip\<close> was not empty and
  becomes empty fails with the error that asks for the resource to be recreated, naming
  the first such key and its old value. It fails before any request is sent (no tag
  request, no update request) and leaves the state record as it was. The identifier of
  the record is the text of a UUID, as it is for a resource that was created or read.
\<close>

theorem resourceNetworkUpdate_rejects_clearing:
  assumes "ParseUUID env (Id d) = Inr nid"
    and "(fst (d_GetChange d ''start_ip'') \<noteq> [] \<and> snd (d_GetChange d ''start_ip'') = [])
         \<or> (fst (d_GetChange d ''end_ip'') \<noteq> [] \<and> snd (d_GetChange d ''end_ip'') = [])"
  shows "resourceNetworkUpdate env d =
           (Return (Some (Errorf
              ''[ERROR] new value of %q cannot be empty. old value was %s. The resource must be recreated instead''
              (if fst (d_GetChange d ''start_ip'') \<noteq> [] \<and> snd (d_GetChange d ''start_ip'') = []
               then [ArgString ''start_ip'', ArgString (fst (d_GetChange d ''start_ip''))]
               else [ArgString ''end_ip'', ArgString (fst (d_GetChange d ''end_ip''))]))),
            d, [])"
proof -
  note k = resourceNetworkUpdate_keys_cleared [OF assms(2)]
  show ?thesis
    unfolding resourceNetworkUpdate_def
    by (simp only: assms(1) sum.case k if_True option.case)
qed

text \<open>
  The claim at the stored network whose configuration lost its \<open>end_ip\<close>.
\<close>

theorem resourceNetworkUpdate_rejects_clearing_witness:
  "ParseUUID example_env (Id example_cleared) = Inr (UUID 2)
   \<and> fst (d_GetChange example_cleared ''end_ip'') = ''10.0.0.50''
   \<and> snd (d_GetChange example_cleared ''end_ip'') = []
   \<and> resourceNetworkUpdate example_env example_cleared =
       (Return (Some (Errorf
          ''[ERROR] new value of %q cannot be empty. old value was %s. The resource must be recreated instead''
          [ArgString ''end_ip'', ArgString ''10.0.0.50''])),
        example_cleared, [])"
proof -
  have p: "ParseUUID example_env (Id example_cleared) = Inr (UUID 2)"
    by (simp add: example_env_def example_cleared_def example_stored_def example_ParseUUID_values)
  have s: "d_GetChange example_cleared ''start_ip'' = (''10.0.0.10'', ''10.0.0.10'')"
    by (simp add: d_GetChange_def d_Get_def example_cleared_def example_stored_def)
  have e: "d_GetChange example_cleared ''end_ip'' = (''10.0.0.50'', [])"
    by (simp add: d_GetChange_def d_Get_def example_cleared_def example_stored_def)
  have h: "(fst (d_GetChange example_cleared ''start_ip'') \<noteq> []
              \<and> snd (d_GetChange example_cleared ''start_ip'') = [])
         \<or> (fst (d_GetChange example_cleared ''end_ip'') \<noteq> []
              \<and> snd (d_GetChange example_cleared ''end_ip'') = [])"
    by (simp add: e)
  from resourceNetworkUpdate_rejects_clearing [OF p h] show ?thesis
    by (simp add: p s e)
qed

section \<open>Cleanup after a failed tag request\<close>

text \<open>
  Claim C4. When the network is created and the tag request then fails, the create call
  returns the tag request's error, with the new identifier stored. After the failed tag
  request it sends exactly one request, the delete of the network just created; when that
  delete fails too, its error is logged as a warning, and in both cases the error
  returned is the tag request's.
\<close>

theorem resourceNetworkCreate_tag_failure:
  assumes zone: "getZoneByName env (d_Get d ''zone'') = (Inr zone, evs)"
    and valid: "resourceNetworkCreate_validate env d = None"
    and created: "client env (resourceNetworkCreate_req env d zone) = Inr (NetworkResp network)"
    and tags: "createTags env (d_SetId d (UUID_String env (Network_ID network))) ''tags''
                 Network_ResourceType = Inr (Some cmd)"
    and failure: "client env cmd = Inl err"
  shows "resourceNetworkCreate env d =
           (Return (Some err), d_SetId d (UUID_String env (Network_ID network)),
            evs @ [Rpc (resourceNetworkCreate_req env d zone), Rpc cmd,
                   Rpc (DeleteNetwork (Network_ID network))]
              @ (case client env (DeleteNetwork (Network_ID network)) of
                   Inl e \<Rightarrow> [Warn ''failure to create the tags, but the network was created'' e]
                 | Inr _ \<Rightarrow> []))"
proof -
  have t: "resourceNetworkCreate_tags env (d_SetId d (UUID_String env (Network_ID network))) network =
          (Return (Some err), d_SetId d (UUID_String env (Network_ID network)),
           [Rpc cmd, Rpc (DeleteNetwork (Network_ID network))]
              @ (case client env (DeleteNetwork (Network_ID network)) of
                   Inl e \<Rightarrow> [Warn ''failure to create the tags, but the network was created'' e]
                 | Inr _ \<Rightarrow> []))"
    using tags failure
    by (simp add: resourceNetworkCreate_tags_def BooleanRequestWithContext_def Let_def
        split: sum.splits)
  show ?thesis
    using zone valid created by (simp add: resourceNetworkCreate_def t)
qed

text \<open>
  The claim at the example remote whose tag request and delete request both fail.
\<close>

theorem resourceNetworkCreate_tag_failure_witness:
  "getZoneByName example_env_tags_fail (d_Get example_config ''zone'')
     = (Inr example_zone_gva, [Rpc ListZones])
   \<and> resourceNetworkCreate_validate example_env_tags_fail example_config = None
   \<and> client example_env_tags_fail
         (resourceNetworkCreate_req example_env_tags_fail example_config example_zone_gva)
       = Inr (NetworkResp example_network)
   \<and> client example_env_tags_fail (CreateTags (UUID 2) ''Network'' [(''env'', ''prod'')])
       = Inl (ErrorResponse (OtherCode 500) ''tags unavailable'')
   \<and> resourceNetworkCreate example_env_tags_fail example_config =
       (Return (Some (ErrorResponse (OtherCode 500) ''tags unavailable'')),
        d_SetId example_config ''u11'',
        [Rpc ListZones,
         Rpc (CreateNetwork ''private'' ''private'' (UUID 3) (Some (IP [10, 0, 0, 10]))
                (Some (IP [10, 0, 0, 50])) (Some (IP [255, 255, 255, 0]))),
         Rpc (CreateTags (UUID 2) ''Network'' [(''env'', ''prod'')]),
         Rpc (DeleteNetwork (UUID 2)),
         Warn ''failure to create the tags, but the network was created''
           (OtherError ''connection reset'')])"
proof -
  have z: "getZoneByName example_env_tags_fail (d_Get example_config ''zone'')
             = (Inr example_zone_gva, [Rpc ListZones])"
    by (simp add: example_config_Get getZoneByName_example example_env_tags_fail_fields)
  have v: "resourceNetworkCreate_validate example_env_tags_fail example_config = None"
    by (simp add: example_config_validate example_env_tags_fail_fields)
  have r: "resourceNetworkCreate_req example_env_tags_fail example_config example_zone_gva =
     CreateNetwork ''private'' ''private'' (UUID 3) (Some (IP [10, 0, 0, 10]))
       (Some (IP [10, 0, 0, 50])) (Some (IP [255, 255, 255, 0]))"
    by (simp add: example_config_req example_env_tags_fail_fields)
  have c: "client example_env_tags_fail
         (resourceNetworkCreate_req example_env_tags_fail example_config example_zone_gva)
       = Inr (NetworkResp example_network)"
    by (simp add: r example_env_tags_fail_fields)
  have i: "UUID_String example_env_tags_fail (Network_ID example_network) = ''u11''"
    by (simp add: example_env_tags_fail_fields example_network_def example_UUID_String_values)
  have t: "createTags example_env_tags_fail
             (d_SetId example_config (UUID_String example_env_tags_fail (Network_ID example_network)))
             ''tags'' Network_ResourceType
           = Inr (Some (CreateTags (UUID 2) ''Network'' [(''env'', ''prod'')]))"
    by (simp add: example_env_tags_fail_fields Network_ResourceType_def)
  have f: "client example_env_tags_fail (CreateTags (UUID 2) ''Network'' [(''env'', ''prod'')])
       = Inl (ErrorResponse (OtherCode 500) ''tags unavailable'')"
    by (simp add: example_env_tags_fail_fields)
  have n: "Network_ID example_network = UUID 2"
    by (simp add: example_network_def)
  from resourceNetworkCreate_tag_failure [OF z v c t f] z v c f show ?thesis
    by (simp add: r i n example_env_tags_fail_fields example_UUID_String_values)
qed

section \<open>The lookup of a network across the zones\<close>

text \<open>
  Claim C5, as amended. When the identifier parses and the zones are listed, the lookup
  asks the zones in listing order. It passes over every zone that reports a parameter
  error or lists no network, and stops at the first other zone: with that zone's answer
  when it lists at least one network, with that zone's error when it reports a typed API
  error of another code but not-found. When every zone is passed over it returns the
  not-found signal. No zone after the one it stops at is asked. (The zone it stops at
  answers with a listing or with a typed API error other than not-found.)
\<close>

theorem resourceNetworkFind_zone_order:
  assumes "ParseUUID env (Id d) = Inr nid"
    and "client env ListZones = Inr (ListZonesResponse zones)"
    and "case dropWhile (zone_without_match env nid) zones of
             [] \<Rightarrow> True
           | zone # _ \<Rightarrow> zone_answer_handled env nid zone"
  shows "case dropWhile (zone_without_match env nid) zones of
           [] \<Rightarrow>
             resourceNetworkFind env d =
               (Return (Inl ErrNotFound),
                Rpc ListZones
                  # map (\<lambda>z. Rpc (ListNetworks (Some nid) (Some (Zone_ID z)))) zones)
         | zone # _ \<Rightarrow>
             (case client env (ListNetworks (Some nid) (Some (Zone_ID zone))) of
                Inl err \<Rightarrow>
                  resourceNetworkFind env d =
                    (Return (Inl err),
                     Rpc ListZones
                       # map (\<lambda>z. Rpc (ListNetworks (Some nid) (Some (Zone_ID z))))
                           (takeWhile (zone_without_match env nid) zones @ [zone]))
              | Inr r \<Rightarrow>
                  (\<exists>resp. r = ListNetworksResp resp \<and> 0 < Count resp
                     \<and> resourceNetworkFind env d =
                         (Return (Inr resp),
                          Rpc ListZones
                            # map (\<lambda>z. Rpc (ListNetworks (Some nid) (Some (Zone_ID z))))
                                (takeWhile (zone_without_match env nid) zones @ [zone]))))"
proof -
  have f: "resourceNetworkFind env d =
             (fst (resourceNetworkFind_zones env nid zones),
              Rpc ListZones # snd (resourceNetworkFind_zones env nid zones))"
    using assms(1,2) by (simp add: resourceNetworkFind_def split: prod.splits)
  note o = resourceNetworkFind_zones_order [OF assms(3)]
  show ?thesis
  proof (cases "dropWhile (zone_without_match env nid) zones")
    case Nil
    show ?thesis
      using o unfolding f Nil by simp
  next
    case (Cons zone rest)
    show ?thesis
      using o unfolding f Cons
      by (cases "client env (ListNetworks (Some nid) (Some (Zone_ID zone)))") auto
  qed
qed

text \<open>
  The amended claim at the example remote: the first zone reports a parameter error and
  is passed over, the second lists the network.
\<close>

theorem resourceNetworkFind_zone_order_witness:
  "ParseUUID example_env (Id example_stored) = Inr (UUID 2)
   \<and> client example_env ListZones = Inr (ListZonesResponse [example_zone_fra, example_zone_gva])
   \<and> zone_without_match example_env (UUID 2) example_zone_fra
   \<and> zone_answer_handled example_env (UUID 2) example_zone_gva
   \<and> resourceNetworkFind example_env example_stored =
       (Return (Inr \<lparr>Count = 1, Networks = [example_network]\<rparr>),
        [Rpc ListZones, Rpc (ListNetworks (Some (UUID 2)) (Some (UUID 4))),
         Rpc (ListNetworks (Some (UUID 2)) (Some (UUID 3)))])"
proof -
  have p: "ParseUUID example_env (Id example_stored) = Inr (UUID 2)"
    by (simp add: example_env_fields example_stored_def example_ParseUUID_values)
  have z: "client example_env ListZones
             = Inr (ListZonesResponse [example_zone_fra, example_zone_gva])"
    by (simp add: example_env_fields)
  have h: "case dropWhile (zone_without_match example_env (UUID 2))
                  [example_zone_fra, example_zone_gva] of
             [] \<Rightarrow> True
           | zone # _ \<Rightarrow> zone_answer_handled example_env (UUID 2) zone"
    by (simp add: example_env_zone_answers)
  from resourceNetworkFind_zone_order [OF p z h] p z show ?thesis
    by (simp add: example_env_zone_answers example_zone_ids example_env_fields)
qed

text \<open>
  Claim C5 as stated fails: the only zone of this remote answers with an authorisation
  error, so no zone yields a match, and the lookup returns that error, not the not-found
  signal.
\<close>

theorem resourceNetworkFind_aborts_on_other_error:
  "client example_env_unauthorized ListZones = Inr (ListZonesResponse [example_zone_gva])
   \<and> client example_env_unauthorized (ListNetworks (Some (UUID 2)) (Some (Zone_ID example_zone_gva)))
       = Inl (ErrorResponse (OtherCode 401) ''unauthorized'')
   \<and> resourceNetworkFind example_env_unauthorized example_stored =
       (Return (Inl (ErrorResponse (OtherCode 401) ''unauthorized'')),
        [Rpc ListZones, Rpc (ListNetworks (Some (UUID 2)) (Some (UUID 3)))])
   \<and> fst (resourceNetworkFind example_env_unauthorized example_stored) \<noteq> Return (Inl ErrNotFound)"
  by (simp add: resourceNetworkFind_def example_unauthorized_fields example_stored_def
      example_ParseUUID_values example_zone_gva_def)

section \<open>The existence probe\<close>

text \<open>
  Claim C6 fails on the code at the same input: the existence probe of the network
  resource neither returns false nor propagates the error of the listing; it panics in
  the lookup.
\<close>

theorem resourceNetworkExists_panics_on_untyped_error:
  "resourceNetworkExists example_env_timeout example_stored =
     (Panic, example_stored, [Rpc ListZones, Rpc (ListNetworks (Some (UUID 2)) (Some (UUID 3)))])"
  by (simp add: resourceNetworkExists_def resourceNetworkFind_def example_timeout_fields
      example_stored_def example_ParseUUID_values example_zone_gva_def)

section \<open>The identifier after an update\<close>

text \<open>
  Claim C7, as amended. An update of a network that succeeds ends with a read, which
  stores as identifier the printed identifier of the first network the lookup lists for
  the identifier before. The identifier after the update is the identifier before when
  that identifier is the printed form of its UUID and the API lists, for an identifier,
  only the network that carries it.
\<close>

theorem resourceNetworkUpdate_identifier:
  assumes "fst (resourceNetworkUpdate env d) = Return None"
  shows "\<exists>nid resp evs network rest.
           ParseUUID env (Id d) = Inr nid
           \<and> resourceNetworkFind env d = (Return (Inr resp), evs)
           \<and> Networks resp = network # rest
           \<and> Id (fst (snd (resourceNetworkUpdate env d))) = UUID_String env (Network_ID network)
           \<and> (UUID_String env nid = Id d \<and> lists_queried_network env nid
                \<longrightarrow> Id (fst (snd (resourceNetworkUpdate env d))) = Id d)"
proof -
  from resourceNetworkUpdate_success [OF assms] have
    ok: "fst (resourceNetworkRead env d) = Return None"
    and st: "fst (snd (resourceNetworkUpdate env d)) = fst (snd (resourceNetworkRead env d))"
    by simp_all
  from resourceNetworkRead_success [OF ok] obtain resp evs network rest where
    f: "resourceNetworkFind env d = (Return (Inr resp), evs)"
    and n: "Networks resp = network # rest"
    and r: "resourceNetworkRead env d = (Return None, snd (resourceNetworkApply env d network), evs)"
    by blast
  from resourceNetworkFind_answer [OF f] obtain nid zid where
    p: "ParseUUID env (Id d) = Inr nid"
    and q: "client env (ListNetworks (Some nid) zid) = Inr (ListNetworksResp resp)"
    by blast
  have i: "Id (fst (snd (resourceNetworkUpdate env d))) = UUID_String env (Network_ID network)"
    by (simp add: st r resourceNetworkApply_eq)
  have "UUID_String env nid = Id d \<and> lists_queried_network env nid
          \<longrightarrow> Id (fst (snd (resourceNetworkUpdate env d))) = Id d"
  proof
    assume a: "UUID_String env nid = Id d \<and> lists_queried_network env nid"
    with q have "\<forall>x \<in> set (Networks resp). Network_ID x = nid"
      unfolding lists_queried_network_def by blast
    with n have "Network_ID network = nid" by simp
    with a i show "Id (fst (snd (resourceNetworkUpdate env d))) = Id d" by simp
  qed
  with p f n i show ?thesis by blast
qed

text \<open>
  The amended claim at the stored example network, whose description changes: its
  identifier is the printed form of its UUID and stays.
\<close>

theorem resourceNetworkUpdate_identifier_witness:
  "fst (resourceNetworkUpdate example_env example_stored) = Return None
   \<and> ParseUUID example_env (Id example_stored) = Inr (UUID 2)
   \<and> UUID_String example_env (UUID 2) = Id example_stored
   \<and> lists_queried_network example_env (UUID 2)
   \<and> Id example_stored = ''u11''
   \<and> Id (fst (snd (resourceNetworkUpdate example_env example_stored))) = ''u11''"
proof -
  have ok: "fst (resourceNetworkUpdate example_env example_stored) = Return None"
    by (simp add: example_env_Update)
  have p: "ParseUUID example_env (Id example_stored) = Inr (UUID 2)"
    by (simp add: example_env_fields example_stored_fields example_ParseUUID_values)
  have c: "UUID_String example_env (UUID 2) = Id example_stored"
    by (simp add: example_env_fields example_stored_fields example_UUID_String_values)
  note api = example_env_lists_queried_network [of "UUID 2"]
  from resourceNetworkUpdate_identifier [OF ok] p c api
  have "Id (fst (snd (resourceNetworkUpdate example_env example_stored))) = Id example_stored"
    by auto
  with ok p c api show ?thesis
    by (simp add: example_stored_fields)
qed

text \<open>
  Claim C7 as stated fails: the identifier of this record is written with a capital
  letter, the library parses it, the update succeeds, and the record ends with the
  identifier as the library prints it.
\<close>

theorem resourceNetworkUpdate_prints_identifier_anew:
  "Id example_stored_capital = ''U11''
   \<and> fst (resourceNetworkUpdate example_env_any_case example_stored_capital) = Return None
   \<and> Id (fst (snd (resourceNetworkUpdate example_env_any_case example_stored_capital))) = ''u11''"
  by (simp add: resourceNetworkUpdate_def example_env_any_case_fields
      example_stored_capital_fields example_ParseUUID_any_case_values example_ParseIP_values
      example_env_any_case_Read resourceNetworkApply_eq example_network_fields
      example_UUID_String_values)

section \<open>A create ends with a read\<close>




section \<open>Errors of the listing in the lookup\<close>

text \<open>
  Claim C9 fails on the code: the only zone of this remote does not answer in time, the
  error is no typed API error, and the lookup goes on to the type assertion on the nil
  response, which panics.
\<close>

theorem resourceNetworkFind_panics_on_untyped_error:
  "client example_env_timeout (ListNetworks (Some (UUID 2)) (Some (Zone_ID example_zone_gva)))
     = Inl (OtherError ''context deadline exceeded'')
   \<and> resourceNetworkFind example_env_timeout example_stored =
       (Panic, [Rpc ListZones, Rpc (ListNetworks (Some (UUID 2)) (Some (UUID 3)))])"
  by (simp add: resourceNetworkFind_def example_timeout_fields example_stored_def
      example_ParseUUID_values example_zone_gva_def)

section \<open>The addresses are mirrored all or nothing\<close>

text \<open>
  Claim C10. After a successful read of the network resource, and after a successful read
  of the network data source, the attributes \<open>start_ip\<close>, \<open>end_ip\<close> and \<open>netmask\<close>
  of the state record are the three addresses of the network that was found (the first
  network of the lookup's answer, a network of the zone's listing), or all three are the
  empty string; a part of them is never set.
\<close>

theorem read_addresses_all_or_none:
  "(fst (resourceNetworkRead env d) = Return None \<longrightarrow>
      (\<exists>resp evs network rest.
         resourceNetworkFind env d = (Return (Inr resp), evs)
         \<and> Networks resp = network # rest
         \<and> addresses_all_or_none env network (fst (snd (resourceNetworkRead env d)))))
   \<and> (fst (dataSourceNetworkRead env d') = Return None \<longrightarrow>
      (\<exists>zone evs resp network.
         getZoneByName env (d_Get d' ''zone'') = (Inr zone, evs)
         \<and> ListWithContext env (ListNetworks None (Some (Zone_ID zone))) = Inr resp
         \<and> network \<in> set resp
         \<and> addresses_all_or_none env network (fst (snd (dataSourceNetworkRead env d')))))"
proof (intro conjI impI)
  assume "fst (resourceNetworkRead env d) = Return None"
  from resourceNetworkRead_success [OF this] obtain resp evs network rest where
    f: "resourceNetworkFind env d = (Return (Inr resp), evs)"
    and n: "Networks resp = network # rest"
    and r: "resourceNetworkRead env d = (Return None, snd (resourceNetworkApply env d network), evs)"
    by blast
  have "addresses_all_or_none env network (fst (snd (resourceNetworkRead env d)))"
    by (simp add: r resourceNetworkApply_addresses_all_or_none)
  with f n show "\<exists>resp evs network rest.
         resourceNetworkFind env d = (Return (Inr resp), evs)
         \<and> Networks resp = network # rest
         \<and> addresses_all_or_none env network (fst (snd (resourceNetworkRead env d)))"
    by blast
next
  assume "fst (dataSourceNetworkRead env d') = Return None"
  from dataSourceNetworkRead_success [OF this] obtain zone evs resp network where
    z: "getZoneByName env (d_Get d' ''zone'') = (Inr zone, evs)"
    and l: "ListWithContext env (ListNetworks None (Some (Zone_ID zone))) = Inr resp"
    and m: "network \<in> set resp"
    and r: "fst (snd (dataSourceNetworkRead env d')) = snd (dataSourceNetworkRead_apply env d' network)"
    by blast
  have "addresses_all_or_none env network (fst (snd (dataSourceNetworkRead env d')))"
    by (simp add: r dataSourceNetworkRead_apply_all_or_none)
  with z l m show "\<exists>zone evs resp network.
         getZoneByName env (d_Get d' ''zone'') = (Inr zone, evs)
         \<and> ListWithContext env (ListNetworks None (Some (Zone_ID zone))) = Inr resp
         \<and> network \<in> set resp
         \<and> addresses_all_or_none env network (fst (snd (dataSourceNetworkRead env d')))"
    by blast
qed

text \<open>
  The claim at the example remote: both reads succeed and set the three addresses.
\<close>

theorem read_addresses_all_or_none_witness:
  "fst (resourceNetworkRead example_env example_stored) = Return None
   \<and> strs (fst (snd (resourceNetworkRead example_env example_stored))) ''start_ip''
       = Some ''10.0.0.10''
   \<and> strs (fst (snd (resourceNetworkRead example_env example_stored))) ''end_ip''
       = Some ''10.0.0.50''
   \<and> strs (fst (snd (resourceNetworkRead example_env example_stored))) ''netmask''
       = Some ''255.255.255.0''
   \<and> fst (dataSourceNetworkRead example_env example_network_query) = Return None
   \<and> addresses_all_or_none example_env example_network
        (fst (snd (dataSourceNetworkRead example_env example_network_query)))"
proof -
  have i: "Id example_stored = ''u11''"
    by (simp add: example_stored_def)
  from read_addresses_all_or_none [of example_env example_stored example_network_query]
  show ?thesis
    by (simp add: example_env_Read [OF i] example_env_dataSourceNetworkRead
        resourceNetworkApply_eq dataSourceNetworkRead_apply_eq addresses_all_or_none_def
        example_network_fields example_env_fields example_IP_String_values)
qed

end
